theory Spec2Isabelle
  imports Complex_Main
begin

section \<open>Values of the JavaScript runtime\<close>

text \<open>
  The three tables are the \<open>data\<close> arrays that the CSV loader returns with
  \<open>header: true, dynamicTyping: true\<close>. A field of a row is then one of: absent
  (reading it gives \<open>undefined\<close>), \<open>null\<close> (an empty cell), a boolean, a finite number, or
  a string. A timestamp that the loader has already turned into a \<open>Date\<close> behaves in the
  two timestamp columns as the string it was read from, and is that string here.
  Strings are byte lists (UTF-8); the only string operations of the program compare
  with, or search for, lower-case ASCII words.
\<close>

datatype cell = CUndefined | CNull | CBool bool | CNum rat | CStr string

text \<open>
  Numbers computed by the program. Arithmetic is exact (the rounding of IEEE doubles is
  not modelled); \<open>NaN\<close> and the infinities are kept, since the program produces them.
\<close>

datatype number = NaN | PosInf | NegInf | Fin rat

text \<open>JavaScript truthiness, as tested by \<open>!x\<close>.\<close>

fun truthy :: "cell \<Rightarrow> bool" where
  "truthy CUndefined = False"
| "truthy CNull = False"
| "truthy (CBool b) = b"
| "truthy (CNum r) = (r \<noteq> 0)"
| "truthy (CStr s) = (s \<noteq> [])"

text \<open>\<open>a / b\<close> on numbers.\<close>

fun jsDiv :: "number \<Rightarrow> number \<Rightarrow> number" where
  "jsDiv NaN b = NaN"
| "jsDiv a NaN = NaN"
| "jsDiv (Fin x) (Fin y) =
     (if y = 0 then (if x = 0 then NaN else if 0 < x then PosInf else NegInf)
      else Fin (x / y))"
| "jsDiv (Fin x) b = Fin 0"
| "jsDiv a (Fin y) = (if (a = PosInf) = (0 \<le> y) then PosInf else NegInf)"
| "jsDiv a b = NaN"

text \<open>\<open>a * b\<close> on numbers.\<close>

fun jsMul :: "number \<Rightarrow> number \<Rightarrow> number" where
  "jsMul NaN b = NaN"
| "jsMul a NaN = NaN"
| "jsMul (Fin x) (Fin y) = Fin (x * y)"
| "jsMul (Fin x) b =
     (if x = 0 then NaN else if (b = PosInf) = (0 < x) then PosInf else NegInf)"
| "jsMul a (Fin y) =
     (if y = 0 then NaN else if (a = PosInf) = (0 < y) then PosInf else NegInf)"
| "jsMul a b = (if a = b then PosInf else NegInf)"

text \<open>\<open>a + b\<close> and \<open>a - b\<close> on numbers.\<close>

fun jsAdd :: "number \<Rightarrow> number \<Rightarrow> number" where
  "jsAdd NaN b = NaN"
| "jsAdd a NaN = NaN"
| "jsAdd (Fin x) (Fin y) = Fin (x + y)"
| "jsAdd (Fin x) b = b"
| "jsAdd a (Fin y) = a"
| "jsAdd a b = (if a = b then a else NaN)"

fun jsNeg :: "number \<Rightarrow> number" where
  "jsNeg NaN = NaN"
| "jsNeg PosInf = NegInf"
| "jsNeg NegInf = PosInf"
| "jsNeg (Fin x) = Fin (- x)"

definition jsSub :: "number \<Rightarrow> number \<Rightarrow> number" where
  "jsSub a b = jsAdd a (jsNeg b)"

text \<open>\<open>a <= b\<close> on numbers: false as soon as one side is \<open>NaN\<close>.\<close>

fun jsLe :: "number \<Rightarrow> number \<Rightarrow> bool" where
  "jsLe NaN b = False"
| "jsLe a NaN = False"
| "jsLe (Fin x) (Fin y) = (x \<le> y)"
| "jsLe NegInf b = True"
| "jsLe a PosInf = True"
| "jsLe a b = False"

subsection \<open>Strings\<close>

text \<open>
  \<open>String.prototype.toLowerCase\<close> on the ASCII letters. A character outside ASCII is left
  as it is: its lower-case form never produces a letter that continues one of the words
  the program searches for.
\<close>

definition lowerChar :: "char \<Rightarrow> char" where
  "lowerChar c =
     (if of_char CHR ''A'' \<le> (of_char c :: nat) \<and> (of_char c :: nat) \<le> of_char CHR ''Z''
      then char_of ((of_char c :: nat) + 32) else c)"

definition toLowerCase :: "string \<Rightarrow> string" where
  "toLowerCase s = map lowerChar s"

fun startsWith :: "string \<Rightarrow> string \<Rightarrow> bool" where
  "startsWith s [] = True"
| "startsWith [] (c # cs) = False"
| "startsWith (x # xs) (c # cs) = (x = c \<and> startsWith xs cs)"

text \<open>\<open>String.prototype.includes\<close>: the search string occurs at some position.\<close>

fun includesStr :: "string \<Rightarrow> string \<Rightarrow> bool" where
  "includesStr [] sub = (sub = [])"
| "includesStr (x # xs) sub = (startsWith (x # xs) sub \<or> includesStr xs sub)"

subsection \<open>Dates\<close>

text \<open>
  What the program uses of its host: \<open>Date.parse\<close> on a string (the time value in
  milliseconds since the epoch, \<open>None\<close> for an invalid date), the offset of local time
  from UTC at a time value, the formatting of a count by \<open>toLocaleString()\<close> and of a
  number by \<open>toFixed(digits)\<close>, and the message of the \<open>TypeError\<close> of a call of
  \<open>undefined\<close>. They depend on the JavaScript engine, the locale and the machine, so they
  are parameters; the calendar arithmetic on a time value is fixed.
\<close>

record host =
  dateParse :: "string \<Rightarrow> int option"
  localTZA :: "int \<Rightarrow> int"
  toLocaleString :: "nat \<Rightarrow> string"
  toFixed :: "nat \<Rightarrow> number \<Rightarrow> string"
  typeErrorMessage :: string

definition msPerDay :: int where
  "msPerDay = 1000 * 60 * 60 * 24"

text \<open>Year, month (1 to 12) and day of the month of a day number counted from the epoch.\<close>

definition civilFromDays :: "int \<Rightarrow> int \<times> int \<times> int" where
  "civilFromDays z0 =
     (let z = z0 + 719468;
          era = z div 146097;
          doe = z - era * 146097;
          yoe = (doe - doe div 1460 + doe div 36524 - doe div 146096) div 365;
          y = yoe + era * 400;
          doy = doe - (365 * yoe + yoe div 4 - yoe div 100);
          mp = (5 * doy + 2) div 153;
          d = doy - (153 * mp + 2) div 5 + 1;
          m = (if mp < 10 then mp + 3 else mp - 9)
      in (if m \<le> 2 then y + 1 else y, m, d))"

definition daysFromCivil :: "int \<Rightarrow> int \<Rightarrow> int \<Rightarrow> int" where
  "daysFromCivil y0 m d =
     (let y = (if m \<le> 2 then y0 - 1 else y0);
          era = y div 400;
          yoe = y - era * 400;
          doy = (153 * (if m > 2 then m - 3 else m + 9) + 2) div 5 + d - 1;
          doe = yoe * 365 + yoe div 4 - yoe div 100 + doy
      in era * 146097 + doe - 719468)"

text \<open>
  \<open>new Date(v)\<close> for a field value: a string is parsed, anything else is converted to a
  number and clipped to the range of time values. The result is the time value of the
  date, \<open>None\<close> for an invalid date.
\<close>

definition timeClip :: "rat \<Rightarrow> int option" where
  "timeClip r =
     (if \<bar>r\<bar> > 8640000000000000 then None
      else Some (if 0 \<le> r then \<lfloor>r\<rfloor> else \<lceil>r\<rceil>))"

fun newDate :: "host \<Rightarrow> cell \<Rightarrow> int option" where
  "newDate h CUndefined = None"
| "newDate h CNull = Some 0"
| "newDate h (CBool b) = Some (if b then 1 else 0)"
| "newDate h (CNum r) = timeClip r"
| "newDate h (CStr s) = dateParse h s"

text \<open>\<open>getMonth()\<close> (0 to 11) and \<open>getFullYear()\<close>, in local time; \<open>None\<close> is \<open>NaN\<close>.\<close>

definition getMonth :: "host \<Rightarrow> int option \<Rightarrow> int option" where
  "getMonth h d =
     (case d of None \<Rightarrow> None
      | Some t \<Rightarrow> Some (fst (snd (civilFromDays ((t + localTZA h t) div msPerDay))) - 1))"

definition getFullYear :: "host \<Rightarrow> int option \<Rightarrow> int option" where
  "getFullYear h d =
     (case d of None \<Rightarrow> None
      | Some t \<Rightarrow> Some (fst (civilFromDays ((t + localTZA h t) div msPerDay))))"

text \<open>The time value of a date as a number (\<open>getTime()\<close>, or the date used in a subtraction).\<close>

definition getTime :: "int option \<Rightarrow> number" where
  "getTime d = (case d of None \<Rightarrow> NaN | Some t \<Rightarrow> Fin (of_int t))"

section \<open>The records of the three tables\<close>

record BaseRecord =
  AUTH_ACCOUNT_ID :: cell

record PersonalRecord = BaseRecord +
  JURISDICTION :: cell

record ComplaintRecord = BaseRecord +
  CREATED_AT :: cell
  SOLVED_AT :: cell

record TicketRecord = ComplaintRecord +
  STATUS :: cell
  CONTACT_REASON_VALUE :: cell

section \<open>Time to solution\<close>

text \<open>
  \<^verbatim>\<open>
  const calculateTTS = (createdAt, solvedAt) => {
    if (!createdAt || !solvedAt) return null;
    const created = new Date(createdAt);
    const solved = new Date(solvedAt);
    return (solved - created) / (1000 * 60 * 60 * 24);
  };
  \<close>
  The result is \<open>None\<close> for \<open>null\<close>.
\<close>

definition calculateTTS :: "host \<Rightarrow> cell \<Rightarrow> cell \<Rightarrow> number option" where
  "calculateTTS h createdAt solvedAt =
     (if \<not> truthy createdAt \<or> \<not> truthy solvedAt then None
      else
        let created = newDate h createdAt;
            solved = newDate h solvedAt
        in Some (jsDiv (jsSub (getTime solved) (getTime created)) (Fin (of_int msPerDay))))"

section \<open>The three questions\<close>

text \<open>
  A call of something that is not a function raises a \<open>TypeError\<close>: the program calls
  \<open>toLowerCase\<close> on a contact reason that may be a number or a boolean.
\<close>

datatype error = TypeError

text \<open>\<open>Array.prototype.filter\<close> with a callback that may throw: the first throw ends it.\<close>

fun filterE :: "('a \<Rightarrow> error + bool) \<Rightarrow> 'a list \<Rightarrow> error + 'a list" where
  "filterE f [] = Inr []"
| "filterE f (x # xs) =
     (case f x of
        Inl e \<Rightarrow> Inl e
      | Inr b \<Rightarrow>
          (case filterE f xs of
             Inl e \<Rightarrow> Inl e
           | Inr ys \<Rightarrow> Inr (if b then x # ys else ys)))"

text \<open>
  \<open>v?.toLowerCase().includes(word)\<close>: \<open>undefined\<close> (falsy) when \<open>v\<close> is \<open>null\<close> or
  \<open>undefined\<close>, the search on the lower-cased text when \<open>v\<close> is a string, and a
  \<open>TypeError\<close> otherwise.
\<close>

fun reasonIncludes :: "cell \<Rightarrow> string \<Rightarrow> error + bool" where
  "reasonIncludes CUndefined word = Inr False"
| "reasonIncludes CNull word = Inr False"
| "reasonIncludes (CStr s) word = Inr (includesStr (toLowerCase s) word)"
| "reasonIncludes v word = Inl TypeError"

text \<open>\<open>_.mean\<close> of lodash: \<open>NaN\<close> on the empty array, else the sum over the length.\<close>

fun mean :: "number list \<Rightarrow> number" where
  "mean [] = NaN"
| "mean (x # xs) = jsDiv (foldl jsAdd x xs) (Fin (of_nat (length (x # xs))))"

subsection \<open>Question 1: time to solution of German customers in August\<close>

text \<open>
  \<^verbatim>\<open>
  const germanCustomers = new Set(
    personal.data.filter(p => p.JURISDICTION === 'DE').map(p => p.AUTH_ACCOUNT_ID));
  \<close>
\<close>

definition germanCustomers :: "PersonalRecord list \<Rightarrow> cell set" where
  "germanCustomers personal =
     set (map AUTH_ACCOUNT_ID (filter (\<lambda>p. JURISDICTION p = CStr ''DE'') personal))"

text \<open>
  \<^verbatim>\<open>
  const germanAugustTickets = tickets.data.filter(ticket => {
    if (!ticket.CREATED_AT || !ticket.AUTH_ACCOUNT_ID) return false;
    const created = new Date(ticket.CREATED_AT);
    const isAugust = created.getMonth() === 7 && created.getFullYear() === 2024;
    const isGerman = germanCustomers.has(ticket.AUTH_ACCOUNT_ID);
    const isClosed = ticket.STATUS === 'closed';
    return isAugust && isGerman && isClosed;
  });
  \<close>
\<close>

definition germanAugustTickets ::
  "host \<Rightarrow> cell set \<Rightarrow> TicketRecord list \<Rightarrow> TicketRecord list" where
  "germanAugustTickets h germanCustomers' tickets =
     filter (\<lambda>ticket.
        if \<not> truthy (CREATED_AT ticket) \<or> \<not> truthy (AUTH_ACCOUNT_ID ticket) then False
        else
          let created = newDate h (CREATED_AT ticket);
              isAugust = (getMonth h created = Some 7 \<and> getFullYear h created = Some 2024);
              isGerman = (AUTH_ACCOUNT_ID ticket \<in> germanCustomers');
              isClosed = (STATUS ticket = CStr ''closed'')
          in isAugust \<and> isGerman \<and> isClosed) tickets"

text \<open>
  \<^verbatim>\<open>
  const germanAugustTTS = germanAugustTickets
    .map(ticket => calculateTTS(ticket.CREATED_AT, ticket.SOLVED_AT))
    .filter(tts => tts !== null);
  const averageGermanTTS = _.mean(germanAugustTTS);
  \<close>
\<close>

definition germanAugustTTS :: "host \<Rightarrow> TicketRecord list \<Rightarrow> number list" where
  "germanAugustTTS h germanAugustTickets' =
     map the (filter (\<lambda>tts. tts \<noteq> None)
       (map (\<lambda>ticket. calculateTTS h (CREATED_AT ticket) (SOLVED_AT ticket))
          germanAugustTickets'))"

definition averageGermanTTS :: "number list \<Rightarrow> number" where
  "averageGermanTTS germanAugustTTS' = mean germanAugustTTS'"

subsection \<open>Question 2: complaints of customers with an interest ticket, within 14 days\<close>

text \<open>
  \<^verbatim>\<open>
  const interestTickets = new Set(
    tickets.data
      .filter(t => t.CONTACT_REASON_VALUE?.toLowerCase().includes('interest'))
      .map(t => t.AUTH_ACCOUNT_ID));
  const interestComplaints = complaints.data
    .filter(c => interestTickets.has(c.AUTH_ACCOUNT_ID));
  \<close>
\<close>

definition interestTickets :: "TicketRecord list \<Rightarrow> error + cell set" where
  "interestTickets tickets =
     (case filterE (\<lambda>t. reasonIncludes (CONTACT_REASON_VALUE t) ''interest'') tickets of
        Inl e \<Rightarrow> Inl e
      | Inr ts \<Rightarrow> Inr (set (map AUTH_ACCOUNT_ID ts)))"

definition interestComplaints :: "cell set \<Rightarrow> ComplaintRecord list \<Rightarrow> ComplaintRecord list" where
  "interestComplaints interestTickets' complaints =
     filter (\<lambda>c. AUTH_ACCOUNT_ID c \<in> interestTickets') complaints"

record SLA =
  total :: nat
  withinSLA :: nat

text \<open>
  In a comparison \<open>tts <= 14\<close> the value \<open>null\<close> is converted to the number 0.
\<close>

fun toNumber :: "number option \<Rightarrow> number" where
  "toNumber None = Fin 0"
| "toNumber (Some n) = n"

text \<open>
  \<^verbatim>\<open>
  const complaintsSLA = interestComplaints.reduce((acc, complaint) => {
    const tts = calculateTTS(complaint.CREATED_AT, complaint.SOLVED_AT);
    return {
      total: acc.total + 1,
      withinSLA: acc.withinSLA + (tts <= 14 ? 1 : 0)
    };
  }, { total: 0, withinSLA: 0 });
  \<close>
  as in \<open>src/app/page.tsx\<close>.
\<close>

definition complaintsSLA :: "host \<Rightarrow> ComplaintRecord list \<Rightarrow> SLA" where
  "complaintsSLA h interestComplaints' =
     foldl (\<lambda>acc complaint.
        let tts = calculateTTS h (CREATED_AT complaint) (SOLVED_AT complaint)
        in \<lparr>total = total acc + 1,
            withinSLA = withinSLA acc + (if jsLe (toNumber tts) (Fin 14) then 1 else 0)\<rparr>)
       \<lparr>total = 0, withinSLA = 0\<rparr> interestComplaints'"

text \<open>
  The typed revision of the page (\<open>src/unnamed/part_000\<close>) has the same reduction with
  the test \<^verbatim>\<open>(tts !== null && tts <= 14) ? 1 : 0\<close>.
\<close>

definition complaintsSLA_part000 :: "host \<Rightarrow> ComplaintRecord list \<Rightarrow> SLA" where
  "complaintsSLA_part000 h interestComplaints' =
     foldl (\<lambda>acc complaint.
        let tts = calculateTTS h (CREATED_AT complaint) (SOLVED_AT complaint)
        in \<lparr>total = total acc + 1,
            withinSLA = withinSLA acc +
              (if tts \<noteq> None \<and> jsLe (toNumber tts) (Fin 14) then 1 else 0)\<rparr>)
       \<lparr>total = 0, withinSLA = 0\<rparr> interestComplaints'"

text \<open>
  \<^verbatim>\<open>
  const slaPercentage = (complaintsSLA.withinSLA / complaintsSLA.total) * 100;
  \<close>
\<close>

definition slaPercentage :: "SLA \<Rightarrow> number" where
  "slaPercentage complaintsSLA' =
     jsMul (jsDiv (Fin (of_nat (withinSLA complaintsSLA'))) (Fin (of_nat (total complaintsSLA'))))
       (Fin 100)"

subsection \<open>Question 3: French customers with a transfer ticket and a complaint\<close>

text \<open>
  \<^verbatim>\<open>
  const frenchCustomers = new Set(
    personal.data.filter(p => p.JURISDICTION === 'FR').map(p => p.AUTH_ACCOUNT_ID));
  const transferTickets = tickets.data.filter(t =>
    t.CONTACT_REASON_VALUE?.toLowerCase().includes('transfer') &&
    frenchCustomers.has(t.AUTH_ACCOUNT_ID));
  const frenchTransferComplaints = new Set(
    complaints.data
      .filter(c => frenchCustomers.has(c.AUTH_ACCOUNT_ID))
      .filter(c => transferTickets.some(t => t.AUTH_ACCOUNT_ID === c.AUTH_ACCOUNT_ID))
      .map(c => c.AUTH_ACCOUNT_ID));
  \<close>
\<close>

definition frenchCustomers :: "PersonalRecord list \<Rightarrow> cell set" where
  "frenchCustomers personal =
     set (map AUTH_ACCOUNT_ID (filter (\<lambda>p. JURISDICTION p = CStr ''FR'') personal))"

definition transferTickets :: "cell set \<Rightarrow> TicketRecord list \<Rightarrow> error + TicketRecord list" where
  "transferTickets frenchCustomers' tickets =
     filterE (\<lambda>t.
        case reasonIncludes (CONTACT_REASON_VALUE t) ''transfer'' of
          Inl e \<Rightarrow> Inl e
        | Inr b \<Rightarrow> Inr (b \<and> AUTH_ACCOUNT_ID t \<in> frenchCustomers')) tickets"

definition frenchTransferComplaints ::
  "cell set \<Rightarrow> TicketRecord list \<Rightarrow> ComplaintRecord list \<Rightarrow> cell set" where
  "frenchTransferComplaints frenchCustomers' transferTickets' complaints =
     set (map AUTH_ACCOUNT_ID
       (filter (\<lambda>c. list_ex (\<lambda>t. AUTH_ACCOUNT_ID t = AUTH_ACCOUNT_ID c) transferTickets')
          (filter (\<lambda>c. AUTH_ACCOUNT_ID c \<in> frenchCustomers') complaints)))"

section \<open>The progress log and the analysis run\<close>

record Log =
  timestamp :: string
  message :: string
  type :: string

record AnalysisResult =
  "value" :: "number option"
  answer :: string
  explanation :: string

record Results =
  q1 :: AnalysisResult
  q2 :: AnalysisResult
  q3 :: AnalysisResult

text \<open>
  The state of the component that the analysis writes. \<open>clockReads\<close> counts the readings
  of the wall clock so far: the \<open>k\<close>-th evaluation of \<open>new Date()\<close> gives the time value
  \<open>clock k\<close>, for a \<open>clock\<close> that the run does not control.
\<close>

record state =
  logs :: "Log list"
  results :: "Results option"
  isAnalyzing :: bool
  clockReads :: nat

text \<open>The decimal digit for a number below ten.\<close>

definition digit :: "nat \<Rightarrow> char" where
  "digit n = ''0123456789'' ! n"

fun showNat :: "nat \<Rightarrow> string" where
  "showNat n = (if n < 10 then [digit n] else showNat (n div 10) @ [digit (n mod 10)])"

declare showNat.simps [simp del]

text \<open>\<open>toISOString().split('T')[1].split('.')[0]\<close>: the UTC time of day, \<open>HH:mm:ss\<close>.\<close>

definition timeOfDay :: "int \<Rightarrow> string" where
  "timeOfDay t =
     (let ms = nat (t mod msPerDay);
          two = (\<lambda>n. [digit (n div 10), digit (n mod 10)])
      in two (ms div 3600000) @ '':'' @ two ((ms div 60000) mod 60) @ '':''
         @ two ((ms div 1000) mod 60))"

text \<open>
  \<^verbatim>\<open>
  const addLog = async (message, delay = 0) => {
    if (delay) {
      await new Promise(resolve => setTimeout(resolve, delay));
    }
    const timestamp = new Date().toISOString().split('T')[1].split('.')[0];
    setLogs(prev => [...prev, {
      timestamp,
      message,
      type: message.toLowerCase().includes('error') ? 'error' :
            message.toLowerCase().includes('success') ? 'success' :
            'info'
    }]);
  };
  \<close>
  The delay only postpones the reading of the clock, which is arbitrary already.
\<close>

definition addLog :: "(nat \<Rightarrow> int) \<Rightarrow> string \<Rightarrow> nat \<Rightarrow> state \<Rightarrow> state" where
  "addLog clock message' delay st =
     (let timestamp' = timeOfDay (clock (clockReads st))
      in st\<lparr>logs := logs st @
               [\<lparr>timestamp = timestamp',
                 message = message',
                 type = (if includesStr (toLowerCase message') ''error'' then ''error''
                         else if includesStr (toLowerCase message') ''success'' then ''success''
                         else ''info'')\<rparr>],
             clockReads := Suc (clockReads st)\<rparr>)"

text \<open>The pictograms that start the messages, as UTF-8.\<close>

definition rocket :: string where "rocket = [CHR 0xF0, CHR 0x9F, CHR 0x9A, CHR 0x80]"
definition gear :: string where "gear = [CHR 0xE2, CHR 0x9A, CHR 0x99, CHR 0xEF, CHR 0xB8, CHR 0x8F]"
definition barChart :: string where "barChart = [CHR 0xF0, CHR 0x9F, CHR 0x93, CHR 0x8A]"
definition inboxTray :: string where "inboxTray = [CHR 0xF0, CHR 0x9F, CHR 0x93, CHR 0xA5]"
definition checkMark :: string where "checkMark = [CHR 0xE2, CHR 0x9C, CHR 0x93]"
definition magnifier :: string where "magnifier = [CHR 0xF0, CHR 0x9F, CHR 0x94, CHR 0x8D]"
definition hourglass :: string where "hourglass = [CHR 0xE2, CHR 0x8F, CHR 0xB3]"
definition branch :: string where "branch = [CHR 0xE2, CHR 0x94, CHR 0x94, CHR 0xE2, CHR 0x94, CHR 0x80]"
definition sparkles :: string where "sparkles = [CHR 0xE2, CHR 0x9C, CHR 0xA8]"
definition whiteCheck :: string where "whiteCheck = [CHR 0xE2, CHR 0x9C, CHR 0x85]"
definition crossMark :: string where "crossMark = [CHR 0xE2, CHR 0x9D, CHR 0x8C]"

text \<open>
  The \<open>try\<close> block of \<open>analyzeData\<close> in \<open>src/app/page.tsx\<close>, from the three parsed tables
  on: every \<open>await addLog(...)\<close> in its order, the three questions, and \<open>setResults\<close>.
  \<open>Inl (e, st)\<close> is the exception \<open>e\<close> thrown in the state \<open>st\<close>.
\<close>

definition analyzeTry ::
  "host \<Rightarrow> (nat \<Rightarrow> int) \<Rightarrow> PersonalRecord list \<Rightarrow> TicketRecord list \<Rightarrow> ComplaintRecord list
     \<Rightarrow> state \<Rightarrow> (error \<times> state) + state" where
  "analyzeTry h clock personal tickets complaints st0 =
     (let st = addLog clock (rocket @ '' Initializing Trade Republic data analysis...'') 500 st0;
          st = addLog clock (gear @ ''  Setting up analysis environment...'') 800 st;
          st = addLog clock (barChart @ '' Starting data ingestion phase...'') 1000 st;
          st = addLog clock (inboxTray @ '' Reading personal data file...'') 800 st;
          st = addLog clock (checkMark @ '' Successfully parsed ''
                 @ toLocaleString h (length personal) @ '' personal records'') 500 st;
          st = addLog clock (inboxTray @ '' Reading tickets data file...'') 800 st;
          st = addLog clock (checkMark @ '' Successfully parsed ''
                 @ toLocaleString h (length tickets) @ '' ticket records'') 500 st;
          st = addLog clock (inboxTray @ '' Reading complaints data file...'') 800 st;
          st = addLog clock (checkMark @ '' Successfully parsed ''
                 @ toLocaleString h (length complaints) @ '' complaint records'') 500 st;
          st = addLog clock (magnifier @ '' Beginning data analysis phase...'') 1000 st;
          st = addLog clock (hourglass @ '' Analyzing Q1: German customers TTS in August...'') 800 st;
          germanCustomers' = germanCustomers personal;
          st = addLog clock (branch @ '' Found ''
                 @ toLocaleString h (card germanCustomers') @ '' German customers'') 400 st;
          germanAugustTickets' = germanAugustTickets h germanCustomers' tickets;
          germanAugustTTS' = germanAugustTTS h germanAugustTickets';
          averageGermanTTS' = averageGermanTTS germanAugustTTS';
          st = addLog clock (branch @ '' Processed ''
                 @ toLocaleString h (length germanAugustTickets') @ '' German August tickets'') 400 st;
          st = addLog clock (branch @ '' Average TTS: ''
                 @ toFixed h 3 averageGermanTTS' @ '' days'') 400 st;
          st = addLog clock (hourglass @ '' Analyzing Q2: Interest complaints within SLA...'') 800 st
      in case interestTickets tickets of
           Inl e \<Rightarrow> Inl (e, st)
         | Inr interestTickets' \<Rightarrow>
     (let interestComplaints' = interestComplaints interestTickets' complaints;
          complaintsSLA' = complaintsSLA h interestComplaints';
          slaPercentage' = slaPercentage complaintsSLA';
          st = addLog clock (branch @ '' Found ''
                 @ showNat (length interestComplaints') @ '' interest-related complaints'') 400 st;
          st = addLog clock (branch @ '' SLA compliance: ''
                 @ toFixed h 1 slaPercentage' @ ''%'') 400 st;
          st = addLog clock (hourglass @ '' Analyzing Q3: French transfer complaints...'') 800 st;
          frenchCustomers' = frenchCustomers personal;
          st = addLog clock (branch @ '' Found ''
                 @ showNat (card frenchCustomers') @ '' French customers'') 400 st
      in case transferTickets frenchCustomers' tickets of
           Inl e \<Rightarrow> Inl (e, st)
         | Inr transferTickets' \<Rightarrow>
     (let st = addLog clock (branch @ '' Found ''
                 @ showNat (length transferTickets') @ '' transfer-related tickets'') 400 st;
          frenchTransferComplaints' =
            frenchTransferComplaints frenchCustomers' transferTickets' complaints;
          st = addLog clock (branch @ '' Identified ''
                 @ showNat (card frenchTransferComplaints')
                 @ '' French customers with transfer complaints'') 400 st;
          st = st\<lparr>results := Some
                 \<lparr>q1 = \<lparr>value = Some averageGermanTTS',
                         answer = ''b'',
                         explanation =
                           ''Average TTS for German customers in August was 3.360 days''\<rparr>,
                   q2 = \<lparr>value = Some slaPercentage',
                         answer = ''b'',
                         explanation =
                           ''67.9% of interest-related complaints were resolved within SLA''\<rparr>,
                   q3 = \<lparr>value = Some (Fin (of_nat (card frenchTransferComplaints'))),
                         answer = ''b'',
                         explanation =
                           ''5 French customers had complaints related to transfer inquiries''\<rparr>\<rparr>\<rparr>;
          st = addLog clock (sparkles @ '' Analysis completed successfully!'') 500 st;
          st = addLog clock (barChart @ '' Generating final report...'') 800 st;
          st = addLog clock (whiteCheck @ '' Results ready for review'') 500 st
      in Inr st)))"

text \<open>
  \<^verbatim>\<open>
  const analyzeData = async () => {
    setIsAnalyzing(true);
    setResults(null);
    setLogs([]);
    setDisplayedLogs([]);
    try { ... } catch (error) {
      await addLog(`... Error during analysis: ${error.message}`, 500);
      console.error(error);
    } finally {
      setIsAnalyzing(false);
    }
  };
  \<close>
  The logs already displayed belong to the display and are left out.
\<close>

definition analyzeData ::
  "host \<Rightarrow> (nat \<Rightarrow> int) \<Rightarrow> PersonalRecord list \<Rightarrow> TicketRecord list \<Rightarrow> ComplaintRecord list
     \<Rightarrow> state \<Rightarrow> state" where
  "analyzeData h clock personal tickets complaints st0 =
     (let st = st0\<lparr>isAnalyzing := True, results := None, logs := []\<rparr>;
          st = (case analyzeTry h clock personal tickets complaints st of
                  Inr st' \<Rightarrow> st'
                | Inl (e, st') \<Rightarrow>
                    addLog clock (crossMark @ '' Error during analysis: '' @ typeErrorMessage h)
                      500 st')
      in st\<lparr>isAnalyzing := False\<rparr>)"

subsection \<open>The revision that reports two questions as not computable\<close>

text \<open>
  \<open>src/unnamed/part_001\<close> answers question 1 as above and reports questions 2 and 3 with
  the value \<open>null\<close>. Its \<open>try\<close> block first checks that the three files are present
  (they are, the tables being given) and selects the interest complaints by
  \<^verbatim>\<open>
  const interestComplaints = complaints.data.filter(complaint =>
    tickets.data.some(ticket =>
      ticket.AUTH_ACCOUNT_ID === complaint.AUTH_ACCOUNT_ID &&
      ticket.CONTACT_REASON_VALUE?.toLowerCase().includes('interest')));
  \<close>
  \<open>Array.prototype.some\<close> stops at the first element that satisfies the callback.
\<close>

fun someE :: "('a \<Rightarrow> error + bool) \<Rightarrow> 'a list \<Rightarrow> error + bool" where
  "someE f [] = Inr False"
| "someE f (x # xs) =
     (case f x of
        Inl e \<Rightarrow> Inl e
      | Inr b \<Rightarrow> if b then Inr True else someE f xs)"

definition interestComplaints_part001 ::
  "TicketRecord list \<Rightarrow> ComplaintRecord list \<Rightarrow> error + ComplaintRecord list" where
  "interestComplaints_part001 tickets complaints =
     filterE (\<lambda>complaint.
        someE (\<lambda>ticket.
           if AUTH_ACCOUNT_ID ticket = AUTH_ACCOUNT_ID complaint
           then reasonIncludes (CONTACT_REASON_VALUE ticket) ''interest''
           else Inr False) tickets) complaints"

definition analyzeTry_part001 ::
  "host \<Rightarrow> (nat \<Rightarrow> int) \<Rightarrow> PersonalRecord list \<Rightarrow> TicketRecord list \<Rightarrow> ComplaintRecord list
     \<Rightarrow> state \<Rightarrow> (error \<times> state) + state" where
  "analyzeTry_part001 h clock personal tickets complaints st0 =
     (let st = addLog clock (rocket @ '' Initializing Trade Republic data analysis...'') 500 st0;
          st = addLog clock (gear @ '' Setting up analysis environment...'') 800 st;
          st = addLog clock (barChart @ '' Starting data ingestion phase...'') 1000 st;
          st = addLog clock (magnifier @ '' Beginning data analysis phase...'') 1000 st;
          germanCustomers' = germanCustomers personal;
          germanAugustTickets' = germanAugustTickets h germanCustomers' tickets;
          germanTTS = germanAugustTTS h germanAugustTickets';
          averageGermanTTS' = mean germanTTS
      in case interestComplaints_part001 tickets complaints of
           Inl e \<Rightarrow> Inl (e, st)
         | Inr interestComplaints' \<Rightarrow>
     (let st = st\<lparr>results := Some
                 \<lparr>q1 = \<lparr>value = Some averageGermanTTS',
                         answer = ''a'',
                         explanation =
                           ''Average TTS for German customers in August was 3.327 days''\<rparr>,
                   q2 = \<lparr>value = None,
                         answer = ''e'',
                         explanation = ''Found '' @ showNat (length interestComplaints')
                           @ '' interest-related complaints''\<rparr>,
                   q3 = \<lparr>value = None,
                         answer = ''e'',
                         explanation = ''Not possible to deduce from available data as ''
                           @ ''transfer direction cannot be determined''\<rparr>\<rparr>\<rparr>;
          st = addLog clock (sparkles @ '' Analysis completed successfully!'') 500 st;
          st = addLog clock (barChart @ '' Generating final report...'') 800 st;
          st = addLog clock (whiteCheck @ '' Results ready for review'') 500 st
      in Inr st))"

definition analyzeData_part001 ::
  "host \<Rightarrow> (nat \<Rightarrow> int) \<Rightarrow> PersonalRecord list \<Rightarrow> TicketRecord list \<Rightarrow> ComplaintRecord list
     \<Rightarrow> state \<Rightarrow> state" where
  "analyzeData_part001 h clock personal tickets complaints st0 =
     (let st = st0\<lparr>isAnalyzing := True, results := None, logs := []\<rparr>;
          st = (case analyzeTry_part001 h clock personal tickets complaints st of
                  Inr st' \<Rightarrow> st'
                | Inl (e, st') \<Rightarrow>
                    addLog clock (crossMark @ '' Error during analysis: '' @ typeErrorMessage h)
                      500 st')
      in st\<lparr>isAnalyzing := False\<rparr>)"

section \<open>A host to run the program on\<close>

text \<open>
  A host in the UTC time zone whose \<open>Date.parse\<close> accepts the format
  \<open>YYYY-MM-DDTHH:mm:ssZ\<close> with every field in range and nothing else, whose locale writes
  counts without separators, and whose \<open>toFixed\<close> rounds half up.
\<close>

definition digitsVal :: "string \<Rightarrow> nat option" where
  "digitsVal s =
     foldl (\<lambda>acc c.
        case acc of
          None \<Rightarrow> None
        | Some a \<Rightarrow>
            if of_char CHR ''0'' \<le> (of_char c :: nat) \<and> (of_char c :: nat) \<le> of_char CHR ''9''
            then Some (10 * a + ((of_char c :: nat) - of_char CHR ''0''))
            else None)
       (Some 0) s"

definition daysInMonth :: "nat \<Rightarrow> nat \<Rightarrow> nat" where
  "daysInMonth y m =
     (if m = 2 then (if y mod 4 = 0 \<and> (y mod 100 \<noteq> 0 \<or> y mod 400 = 0) then 29 else 28)
      else if m = 4 \<or> m = 6 \<or> m = 9 \<or> m = 11 then 30 else 31)"

definition isoParse :: "string \<Rightarrow> int option" where
  "isoParse s =
     (if length s = 20 \<and> s ! 4 = CHR ''-'' \<and> s ! 7 = CHR ''-'' \<and> s ! 10 = CHR ''T''
         \<and> s ! 13 = CHR '':'' \<and> s ! 16 = CHR '':'' \<and> s ! 19 = CHR ''Z''
      then
        (case (digitsVal (take 4 s), digitsVal (take 2 (drop 5 s)), digitsVal (take 2 (drop 8 s)),
               digitsVal (take 2 (drop 11 s)), digitsVal (take 2 (drop 14 s)),
               digitsVal (take 2 (drop 17 s))) of
           (Some y, Some mo, Some d, Some hh, Some mi, Some ss) \<Rightarrow>
             if 1 \<le> mo \<and> mo \<le> 12 \<and> 1 \<le> d \<and> d \<le> daysInMonth y mo
                \<and> hh \<le> 23 \<and> mi \<le> 59 \<and> ss \<le> 59
             then Some (daysFromCivil (int y) (int mo) (int d) * msPerDay
                         + int hh * 3600000 + int mi * 60000 + int ss * 1000)
             else None
         | _ \<Rightarrow> None)
      else None)"

definition fixedDigits :: "nat \<Rightarrow> number \<Rightarrow> string" where
  "fixedDigits f x =
     (case x of
        NaN \<Rightarrow> ''NaN''
      | PosInf \<Rightarrow> ''Infinity''
      | NegInf \<Rightarrow> ''-Infinity''
      | Fin r \<Rightarrow>
          (let n = nat \<lfloor>\<bar>r\<bar> * 10 ^ f + 1 / 2\<rfloor>;
               frac = showNat (n mod 10 ^ f);
               body = showNat (n div 10 ^ f)
                 @ (if f = 0 then [] else ''.'' @ replicate (f - length frac) CHR ''0'' @ frac)
           in if r < 0 then ''-'' @ body else body))"

definition utcHost :: host where
  "utcHost =
     \<lparr>dateParse = isoParse,
      localTZA = (\<lambda>t. 0),
      toLocaleString = showNat,
      toFixed = fixedDigits,
      typeErrorMessage = ''t.CONTACT_REASON_VALUE?.toLowerCase is not a function''\<rparr>"

text \<open>A clock that starts at midnight and advances by one second with every reading.\<close>

definition tickClock :: "nat \<Rightarrow> int" where
  "tickClock k = 1000 * int k"

definition idle :: state where
  "idle = \<lparr>logs = [], results = None, isAnalyzing = False, clockReads = 0\<rparr>"

text \<open>
  The same host two hours east of UTC, and the same host with another locale and
  another engine message.
\<close>

definition plusTwoHost :: host where
  "plusTwoHost = utcHost\<lparr>localTZA := (\<lambda>t. 7200000)\<rparr>"

definition groupingHost :: host where
  "groupingHost = utcHost\<lparr>toLocaleString := (\<lambda>n. showNat n @ '',0''),
                          typeErrorMessage := ''not a function''\<rparr>"

text \<open>A clock that stands at noon, and a state left behind by an earlier run.\<close>

definition noonClock :: "nat \<Rightarrow> int" where
  "noonClock k = 43200000"

definition busy :: state where
  "busy =
     \<lparr>logs = [\<lparr>timestamp = ''23:59:59'', message = ''stale'', type = ''info''\<rparr>],
      results = None, isAnalyzing = False, clockReads = 7\<rparr>"

section \<open>Inputs to run the program on\<close>

text \<open>Two customers, one German and one French, and one closed German ticket of August 2024.\<close>

definition fixturePersonal :: "PersonalRecord list" where
  "fixturePersonal =
     [\<lparr>AUTH_ACCOUNT_ID = CStr ''A1'', JURISDICTION = CStr ''DE''\<rparr>,
      \<lparr>AUTH_ACCOUNT_ID = CStr ''A2'', JURISDICTION = CStr ''FR''\<rparr>]"

definition fixtureTicket :: TicketRecord where
  "fixtureTicket =
     \<lparr>AUTH_ACCOUNT_ID = CStr ''A1'', CREATED_AT = CStr ''2024-08-01T00:00:00Z'',
      SOLVED_AT = CStr ''2024-08-04T00:00:00Z'', STATUS = CStr ''closed'',
      CONTACT_REASON_VALUE = CStr ''interest rate question''\<rparr>"

text \<open>A customer whose jurisdiction is written in lower case.\<close>

definition lowerCaseRow :: PersonalRecord where
  "lowerCaseRow = \<lparr>AUTH_ACCOUNT_ID = CStr ''A3'', JURISDICTION = CStr ''de''\<rparr>"

text \<open>The same ticket created in the last hours of July, UTC.\<close>

definition lateJulyTicket :: TicketRecord where
  "lateJulyTicket = fixtureTicket\<lparr>CREATED_AT := CStr ''2024-07-31T22:30:00Z''\<rparr>"

text \<open>The same ticket created in September.\<close>

definition septemberTicket :: TicketRecord where
  "septemberTicket = fixtureTicket\<lparr>CREATED_AT := CStr ''2024-09-01T00:00:00Z''\<rparr>"

text \<open>A German customer row and a ticket whose account id cell is empty.\<close>

definition emptyIdPersonal :: "PersonalRecord list" where
  "emptyIdPersonal = [\<lparr>AUTH_ACCOUNT_ID = CNull, JURISDICTION = CStr ''DE''\<rparr>]"

definition emptyIdTicket :: TicketRecord where
  "emptyIdTicket =
     \<lparr>AUTH_ACCOUNT_ID = CNull, CREATED_AT = CStr ''2024-08-01T00:00:00Z'',
      SOLVED_AT = CStr ''2024-08-04T00:00:00Z'', STATUS = CStr ''closed'',
      CONTACT_REASON_VALUE = CNull\<rparr>"

text \<open>
  Complaints of the German customer: one that was never solved, one solved after three
  days and one solved after thirty-one days.
\<close>

definition nullSolvedComplaint :: ComplaintRecord where
  "nullSolvedComplaint =
     \<lparr>AUTH_ACCOUNT_ID = CStr ''A1'', CREATED_AT = CStr ''2024-08-01T00:00:00Z'',
      SOLVED_AT = CNull\<rparr>"

definition slowComplaints :: "ComplaintRecord list" where
  "slowComplaints =
     [\<lparr>AUTH_ACCOUNT_ID = CStr ''A1'', CREATED_AT = CStr ''2024-08-01T00:00:00Z'',
        SOLVED_AT = CStr ''2024-08-04T00:00:00Z''\<rparr>,
      \<lparr>AUTH_ACCOUNT_ID = CStr ''A1'', CREATED_AT = CStr ''2024-08-01T00:00:00Z'',
        SOLVED_AT = CStr ''2024-09-01T00:00:00Z''\<rparr>]"

text \<open>
  Two French customers who both complained; only the first has a ticket about a transfer.
\<close>

definition frenchPersonal :: "PersonalRecord list" where
  "frenchPersonal =
     [\<lparr>AUTH_ACCOUNT_ID = CStr ''A1'', JURISDICTION = CStr ''DE''\<rparr>,
      \<lparr>AUTH_ACCOUNT_ID = CStr ''A2'', JURISDICTION = CStr ''FR''\<rparr>,
      \<lparr>AUTH_ACCOUNT_ID = CStr ''A3'', JURISDICTION = CStr ''FR''\<rparr>]"

definition transferTicket :: TicketRecord where
  "transferTicket =
     \<lparr>AUTH_ACCOUNT_ID = CStr ''A2'', CREATED_AT = CStr ''2024-08-01T00:00:00Z'',
      SOLVED_AT = CNull, STATUS = CStr ''open'',
      CONTACT_REASON_VALUE = CStr ''Transfer''\<rparr>"

definition frenchComplaints :: "ComplaintRecord list" where
  "frenchComplaints =
     [\<lparr>AUTH_ACCOUNT_ID = CStr ''A2'', CREATED_AT = CNull, SOLVED_AT = CNull\<rparr>,
      \<lparr>AUTH_ACCOUNT_ID = CStr ''A3'', CREATED_AT = CNull, SOLVED_AT = CNull\<rparr>,
      \<lparr>AUTH_ACCOUNT_ID = CStr ''A2'', CREATED_AT = CStr ''2024-08-01T00:00:00Z'',
        SOLVED_AT = CStr ''2024-08-04T00:00:00Z''\<rparr>]"

text \<open>A message that the program logs after reading a table of two rows.\<close>

definition parsedMessage :: string where
  "parsedMessage = checkMark @ '' Successfully parsed 2 personal records''"

section \<open>Facts about the library functions\<close>

lemma startsWith_iff: "startsWith s sub \<longleftrightarrow> (\<exists>q. s = sub @ q)"
  by (induction s sub rule: startsWith.induct) auto

lemma includesStr_iff: "includesStr s sub \<longleftrightarrow> (\<exists>p q. s = p @ sub @ q)"
proof (induction s)
  case Nil
  then show ?case by simp
next
  case (Cons x xs)
  show ?case
  proof
    assume "includesStr (x # xs) sub"
    then consider "startsWith (x # xs) sub" | "includesStr xs sub" by auto
    then show "\<exists>p q. x # xs = p @ sub @ q"
    proof cases
      case 1
      then obtain q where "x # xs = sub @ q" by (auto simp: startsWith_iff)
      then have "x # xs = [] @ sub @ q" by simp
      then show ?thesis by blast
    next
      case 2
      then obtain p q where "xs = p @ sub @ q" using Cons.IH by blast
      then have "x # xs = (x # p) @ sub @ q" by simp
      then show ?thesis by blast
    qed
  next
    assume "\<exists>p q. x # xs = p @ sub @ q"
    then obtain p q where pq: "x # xs = p @ sub @ q" by blast
    show "includesStr (x # xs) sub"
    proof (cases p)
      case Nil
      then have "startsWith (x # xs) sub" using pq by (auto simp: startsWith_iff)
      then show ?thesis by simp
    next
      case (Cons y p')
      then have "xs = p' @ sub @ q" using pq by simp
      then have "includesStr xs sub" using Cons.IH by blast
      then show ?thesis by simp
    qed
  qed
qed

lemma includes_lower_iff:
  "includesStr (toLowerCase s) w \<longleftrightarrow> (\<exists>u v x. s = u @ v @ x \<and> toLowerCase v = w)"
proof
  assume "includesStr (toLowerCase s) w"
  then obtain p q where "map lowerChar s = p @ w @ q"
    by (auto simp: includesStr_iff toLowerCase_def)
  then have "map lowerChar (take (length w) (drop (length p) s)) = w"
    by (simp flip: take_map drop_map)
  moreover have "s = take (length p) s @ take (length w) (drop (length p) s)
                   @ drop (length w) (drop (length p) s)"
    by (simp only: append_take_drop_id)
  ultimately show "\<exists>u v x. s = u @ v @ x \<and> toLowerCase v = w"
    unfolding toLowerCase_def by blast
next
  assume "\<exists>u v x. s = u @ v @ x \<and> toLowerCase v = w"
  then obtain u v x where "s = u @ v @ x" "toLowerCase v = w" by blast
  then have "toLowerCase s = toLowerCase u @ w @ toLowerCase x"
    by (auto simp: toLowerCase_def)
  then show "includesStr (toLowerCase s) w"
    unfolding includesStr_iff by blast
qed

lemma reason_contains_iff:
  "(\<exists>s. v = CStr s \<and> includesStr (toLowerCase s) word) \<longleftrightarrow>
   (\<exists>u x y. v = CStr (u @ x @ y) \<and> toLowerCase x = word)"
  unfolding includes_lower_iff by blast

lemma filterE_Inr:
  "filterE f xs = Inr ys \<Longrightarrow> ys = filter (\<lambda>x. f x = Inr True) xs"
  by (induction xs arbitrary: ys) (auto split: sum.splits if_splits)

lemma filterE_total:
  "(\<exists>ys. filterE f xs = Inr ys) \<longleftrightarrow> (\<forall>x\<in>set xs. \<exists>b. f x = Inr b)"
  by (induction xs) (auto split: sum.splits)

lemma filterE_Inl:
  assumes "x \<in> set xs" and "f x = Inl e"
  shows "\<exists>e'. filterE f xs = Inl e'"
proof (cases "filterE f xs")
  case (Inl e')
  then show ?thesis by blast
next
  case (Inr ys)
  then have "\<forall>x\<in>set xs. \<exists>b. f x = Inr b"
    using filterE_total [of f xs] by blast
  with assms show ?thesis by auto
qed

lemma reasonIncludes_True:
  "reasonIncludes v word = Inr True \<longleftrightarrow> (\<exists>s. v = CStr s \<and> includesStr (toLowerCase s) word)"
  by (cases v) auto

lemma reasonIncludes_total:
  "v \<in> {CUndefined, CNull} \<union> range CStr \<Longrightarrow> \<exists>b. reasonIncludes v word = Inr b"
  by (cases v) auto

text \<open>The log grows by one entry with the message given, and the results are untouched.\<close>

lemma results_addLog [simp]: "results (addLog clock m d st) = results st"
  by (simp add: addLog_def)

lemma messages_addLog [simp]:
  "map message (logs (addLog clock m d st)) = map message (logs st) @ [m]"
  by (simp add: addLog_def)

lemma types_addLog [simp]:
  "map type (logs (addLog clock m d st)) =
     map type (logs st) @
       [if includesStr (toLowerCase m) ''error'' then ''error''
        else if includesStr (toLowerCase m) ''success'' then ''success'' else ''info'']"
  by (simp add: addLog_def)

text \<open>Evaluations on the UTC host.\<close>

lemma parse_aug1: "dateParse utcHost ''2024-08-01T00:00:00Z'' = Some 1722470400000"
  by code_simp

lemma parse_aug4: "dateParse utcHost ''2024-08-04T00:00:00Z'' = Some 1722729600000"
  by code_simp

lemma parse_sep1: "dateParse utcHost ''2024-09-01T00:00:00Z'' = Some 1725148800000"
  by code_simp

lemma parse_na: "dateParse utcHost ''n/a'' = None"
  by code_simp

lemma month_aug1: "getMonth utcHost (Some 1722470400000) = Some 7"
  by code_simp
lemma year_aug1: "getFullYear utcHost (Some 1722470400000) = Some 2024"
  by code_simp

lemma month_sep1: "getMonth utcHost (Some 1725148800000) = Some 8"
  by code_simp

lemma parse_jul31: "isoParse ''2024-07-31T22:30:00Z'' = Some 1722465000000"
  by code_simp

lemma month_jul31_utc: "getMonth utcHost (Some 1722465000000) = Some 6"
  by code_simp

lemma month_jul31_plus2: "getMonth plusTwoHost (Some 1722465000000) = Some 7"
  by code_simp

lemma year_jul31_plus2: "getFullYear plusTwoHost (Some 1722465000000) = Some 2024"
  by code_simp

lemma lower_interest: "toLowerCase ''interest rate question'' = ''interest rate question''"
  by code_simp

lemma lower_Transfer: "toLowerCase ''Transfer'' = ''transfer''"
  by code_simp

lemma tts_within: "calculateTTS utcHost (CStr ''2024-08-01T00:00:00Z'') (CStr ''2024-08-04T00:00:00Z'')
    = Some (Fin 3)"
  by (simp add: calculateTTS_def parse_aug1 parse_aug4 getTime_def jsSub_def msPerDay_def)

lemma tts_late: "calculateTTS utcHost (CStr ''2024-08-01T00:00:00Z'') (CStr ''2024-09-01T00:00:00Z'')
    = Some (Fin 31)"
  by (simp add: calculateTTS_def parse_aug1 parse_sep1 getTime_def jsSub_def msPerDay_def)

section \<open>Time to solution\<close>

text \<open>
  C2 (amended). \<open>calculateTTS\<close> returns \<open>null\<close> if and only if one of its two inputs is
  falsy (absent, \<open>null\<close>, empty, zero or \<open>false\<close>). With two truthy inputs it returns a
  number: the difference of the two time values divided by the 86400000 milliseconds
  of a day when both inputs give a valid date, negative when the solution precedes the
  creation, and \<open>NaN\<close> (not \<open>null\<close>) when one of them does not parse.
\<close>

theorem calculateTTS_result:
  "(calculateTTS h createdAt solvedAt = None \<longleftrightarrow> \<not> truthy createdAt \<or> \<not> truthy solvedAt) \<and>
   (truthy createdAt \<and> truthy solvedAt \<longrightarrow>
      calculateTTS h createdAt solvedAt =
        Some (case (newDate h solvedAt, newDate h createdAt) of
                (Some s, Some c) \<Rightarrow> Fin (of_int (s - c) / 86400000)
              | _ \<Rightarrow> NaN))"
  by (auto simp: calculateTTS_def getTime_def jsSub_def msPerDay_def Let_def
           split: option.splits)

theorem calculateTTS_result_witness:
  "truthy (CStr ''2024-08-04T00:00:00Z'') \<and> truthy (CStr ''2024-08-01T00:00:00Z'') \<and>
   calculateTTS utcHost (CStr ''2024-08-04T00:00:00Z'') (CStr ''2024-08-01T00:00:00Z'')
     = Some (Fin (- 3))"
  using calculateTTS_result [of utcHost "CStr ''2024-08-04T00:00:00Z''" "CStr ''2024-08-01T00:00:00Z''"]
  by (simp add: parse_aug1 parse_aug4)

text \<open>
  C2 as stated fails: a creation time that does not parse gives \<open>NaN\<close>, which is not
  \<open>null\<close>.
\<close>

theorem calculateTTS_unparsable_not_null:
  "newDate utcHost (CStr ''n/a'') = None \<and>
   calculateTTS utcHost (CStr ''n/a'') (CStr ''2024-08-04T00:00:00Z'') = Some NaN \<and>
   calculateTTS utcHost (CStr ''n/a'') (CStr ''2024-08-04T00:00:00Z'') \<noteq> None"
  by (simp add: calculateTTS_def parse_na parse_aug4 getTime_def jsSub_def)

section \<open>Cohorts\<close>

lemma germanCustomers_iff:
  "a \<in> germanCustomers personal \<longleftrightarrow>
     (\<exists>p\<in>set personal. JURISDICTION p = CStr ''DE'' \<and> AUTH_ACCOUNT_ID p = a)"
  by (auto simp: germanCustomers_def image_iff)

lemma frenchCustomers_iff:
  "a \<in> frenchCustomers personal \<longleftrightarrow>
     (\<exists>p\<in>set personal. JURISDICTION p = CStr ''FR'' \<and> AUTH_ACCOUNT_ID p = a)"
  by (auto simp: frenchCustomers_def image_iff)

text \<open>
  C7. An account id is in the German (French) cohort exactly when some row of the
  personal table has the jurisdiction \<open>DE\<close> (\<open>FR\<close>), compared as it is written, and
  that very id. A row that is in the table already can be inserted once more anywhere
  without changing either cohort, and so can a row whose jurisdiction is anything but
  the code, the code in another letter case included.
\<close>

theorem cohort_membership:
  "(a \<in> germanCustomers personal \<longleftrightarrow>
      (\<exists>p\<in>set personal. JURISDICTION p = CStr ''DE'' \<and> AUTH_ACCOUNT_ID p = a)) \<and>
   (a \<in> frenchCustomers personal \<longleftrightarrow>
      (\<exists>p\<in>set personal. JURISDICTION p = CStr ''FR'' \<and> AUTH_ACCOUNT_ID p = a)) \<and>
   (p \<in> set (xs @ ys) \<longrightarrow>
      germanCustomers (xs @ p # ys) = germanCustomers (xs @ ys) \<and>
      frenchCustomers (xs @ p # ys) = frenchCustomers (xs @ ys)) \<and>
   (JURISDICTION q \<noteq> CStr ''DE'' \<longrightarrow>
      germanCustomers (xs @ q # ys) = germanCustomers (xs @ ys)) \<and>
   (JURISDICTION q \<noteq> CStr ''FR'' \<longrightarrow>
      frenchCustomers (xs @ q # ys) = frenchCustomers (xs @ ys))"
  by (auto simp: germanCustomers_def frenchCustomers_def)

theorem cohort_membership_witness:
  "CStr ''A1'' \<in> germanCustomers fixturePersonal \<and>
   CStr ''a1'' \<notin> germanCustomers fixturePersonal \<and>
   CStr ''A2'' \<in> frenchCustomers fixturePersonal \<and>
   germanCustomers (fixturePersonal @ hd fixturePersonal # []) = germanCustomers (fixturePersonal @ []) \<and>
   card (germanCustomers (fixturePersonal @ hd fixturePersonal # [])) = 1 \<and>
   germanCustomers (fixturePersonal @ lowerCaseRow # []) = germanCustomers (fixturePersonal @ []) \<and>
   frenchCustomers (fixturePersonal @ lowerCaseRow # []) = frenchCustomers (fixturePersonal @ [])"
proof -
  have m: "hd fixturePersonal \<in> set (fixturePersonal @ [])"
    by (simp add: fixturePersonal_def)
  have c: "card (germanCustomers (fixturePersonal @ [])) = 1"
    by (simp add: fixturePersonal_def germanCustomers_def)
  have d: "JURISDICTION lowerCaseRow \<noteq> CStr ''DE''" "JURISDICTION lowerCaseRow \<noteq> CStr ''FR''"
    by (simp_all add: lowerCaseRow_def)
  show ?thesis
    using cohort_membership [of "CStr ''A1''" fixturePersonal "hd fixturePersonal" fixturePersonal "[]"
        lowerCaseRow]
      cohort_membership [of "CStr ''a1''" fixturePersonal "hd fixturePersonal" fixturePersonal "[]"
        lowerCaseRow]
      cohort_membership [of "CStr ''A2''" fixturePersonal "hd fixturePersonal" fixturePersonal "[]"
        lowerCaseRow]
      m c d
    by (simp add: fixturePersonal_def)
qed

section \<open>Question 1\<close>

text \<open>
  C10. A ticket whose account id is falsy (\<open>null\<close>, \<open>undefined\<close>, the empty string, and
  also zero or \<open>false\<close>) is never selected for question 1, whatever the cohort, its
  creation time and its status are; the selection and the mean are the same with or
  without it.
\<close>

theorem falsy_account_excluded:
  assumes "\<not> truthy (AUTH_ACCOUNT_ID ticket)"
  shows "ticket \<notin> set (germanAugustTickets h cohort tickets) \<and>
         germanAugustTickets h cohort (xs @ ticket # ys) = germanAugustTickets h cohort (xs @ ys) \<and>
         averageGermanTTS (germanAugustTTS h (germanAugustTickets h cohort (xs @ ticket # ys)))
           = averageGermanTTS (germanAugustTTS h (germanAugustTickets h cohort (xs @ ys)))"
  using assms by (simp add: germanAugustTickets_def)

theorem falsy_account_excluded_witness:
  "\<not> truthy (AUTH_ACCOUNT_ID emptyIdTicket) \<and>
   AUTH_ACCOUNT_ID emptyIdTicket \<in> germanCustomers emptyIdPersonal \<and>
   emptyIdTicket \<notin> set (germanAugustTickets utcHost (germanCustomers emptyIdPersonal)
      ([fixtureTicket] @ emptyIdTicket # [])) \<and>
   germanAugustTickets utcHost (germanCustomers emptyIdPersonal) ([fixtureTicket] @ emptyIdTicket # [])
     = germanAugustTickets utcHost (germanCustomers emptyIdPersonal) ([fixtureTicket] @ [])"
proof -
  have f: "\<not> truthy (AUTH_ACCOUNT_ID emptyIdTicket)"
    by (simp add: emptyIdTicket_def)
  have g: "AUTH_ACCOUNT_ID emptyIdTicket \<in> germanCustomers emptyIdPersonal"
    by (simp add: emptyIdTicket_def emptyIdPersonal_def germanCustomers_def)
  show ?thesis
    using falsy_account_excluded [OF f, of utcHost "germanCustomers emptyIdPersonal"
        "[fixtureTicket] @ emptyIdTicket # []" "[fixtureTicket]" "[]"] f g
    by blast
qed

text \<open>
  C3 (amended). A ticket is selected for question 1 if and only if it is in the ticket
  table, its \<open>CREATED_AT\<close> is truthy and gives a date whose month is August and whose year
  is 2024 in the local time of the host, its account id is truthy and is the id of a
  personal row with jurisdiction \<open>DE\<close>, and its \<open>STATUS\<close> is exactly \<open>closed\<close>.
\<close>

theorem germanAugustTickets_iff:
  "ticket \<in> set (germanAugustTickets h (germanCustomers personal) tickets) \<longleftrightarrow>
     ticket \<in> set tickets \<and>
     truthy (CREATED_AT ticket) \<and>
     getMonth h (newDate h (CREATED_AT ticket)) = Some 7 \<and>
     getFullYear h (newDate h (CREATED_AT ticket)) = Some 2024 \<and>
     truthy (AUTH_ACCOUNT_ID ticket) \<and>
     (\<exists>p\<in>set personal. JURISDICTION p = CStr ''DE'' \<and> AUTH_ACCOUNT_ID p = AUTH_ACCOUNT_ID ticket) \<and>
     STATUS ticket = CStr ''closed''"
  by (auto simp: germanAugustTickets_def germanCustomers_def Let_def image_iff)

theorem germanAugustTickets_iff_witness:
  "fixtureTicket \<in> set (germanAugustTickets utcHost (germanCustomers fixturePersonal)
      [fixtureTicket, fixtureTicket\<lparr>CREATED_AT := CStr ''2024-09-01T00:00:00Z''\<rparr>,
       fixtureTicket\<lparr>STATUS := CStr ''open''\<rparr>]) \<and>
   fixtureTicket\<lparr>CREATED_AT := CStr ''2024-09-01T00:00:00Z''\<rparr>
     \<notin> set (germanAugustTickets utcHost (germanCustomers fixturePersonal)
      [fixtureTicket, fixtureTicket\<lparr>CREATED_AT := CStr ''2024-09-01T00:00:00Z''\<rparr>,
       fixtureTicket\<lparr>STATUS := CStr ''open''\<rparr>]) \<and>
   fixtureTicket\<lparr>STATUS := CStr ''open''\<rparr>
     \<notin> set (germanAugustTickets utcHost (germanCustomers fixturePersonal)
      [fixtureTicket, fixtureTicket\<lparr>CREATED_AT := CStr ''2024-09-01T00:00:00Z''\<rparr>,
       fixtureTicket\<lparr>STATUS := CStr ''open''\<rparr>])"
proof -
  have sep: "getMonth utcHost (dateParse utcHost ''2024-09-01T00:00:00Z'') = Some 8"
    by code_simp
  let ?ts = "[fixtureTicket, fixtureTicket\<lparr>CREATED_AT := CStr ''2024-09-01T00:00:00Z''\<rparr>,
       fixtureTicket\<lparr>STATUS := CStr ''open''\<rparr>]"
  show ?thesis
    using germanAugustTickets_iff [of fixtureTicket utcHost fixturePersonal ?ts]
      germanAugustTickets_iff [of "fixtureTicket\<lparr>CREATED_AT := CStr ''2024-09-01T00:00:00Z''\<rparr>"
         utcHost fixturePersonal ?ts]
      germanAugustTickets_iff [of "fixtureTicket\<lparr>STATUS := CStr ''open''\<rparr>"
         utcHost fixturePersonal ?ts]
    by (simp add: fixtureTicket_def fixturePersonal_def parse_aug1 month_aug1 year_aug1 sep)
qed

text \<open>
  C3 as stated fails: a closed ticket of August 2024 whose account id is \<open>null\<close> is not
  selected, although \<open>null\<close> is a member of the German cohort.
\<close>

theorem germanAugustTickets_empty_id_counterexample:
  "CREATED_AT emptyIdTicket \<noteq> CNull \<and>
   getMonth utcHost (newDate utcHost (CREATED_AT emptyIdTicket)) = Some 7 \<and>
   getFullYear utcHost (newDate utcHost (CREATED_AT emptyIdTicket)) = Some 2024 \<and>
   AUTH_ACCOUNT_ID emptyIdTicket \<in> germanCustomers emptyIdPersonal \<and>
   STATUS emptyIdTicket = CStr ''closed'' \<and>
   germanAugustTickets utcHost (germanCustomers emptyIdPersonal) [emptyIdTicket] = []"
  by (simp add: emptyIdTicket_def emptyIdPersonal_def germanCustomers_def germanAugustTickets_def
        parse_aug1 month_aug1 year_aug1)

section \<open>Question 2\<close>

text \<open>
  Both reductions count every complaint in \<open>total\<close>. The one of \<open>src/app/page.tsx\<close>
  counts in \<open>withinSLA\<close> the complaints whose duration, with \<open>null\<close> read as 0, is at
  most 14; the typed one counts those whose duration is a number that is at most 14.
\<close>

lemma complaintsSLA_foldl:
  "foldl (\<lambda>acc complaint.
        let tts = calculateTTS h (CREATED_AT complaint) (SOLVED_AT complaint)
        in \<lparr>total = total acc + 1,
            withinSLA = withinSLA acc + (if jsLe (toNumber tts) (Fin 14) then 1 else 0)\<rparr>)
       acc cs =
   \<lparr>total = total acc + length cs,
    withinSLA = withinSLA acc + length (filter (\<lambda>c.
       jsLe (toNumber (calculateTTS h (CREATED_AT c) (SOLVED_AT c))) (Fin 14)) cs)\<rparr>"
  by (induction cs arbitrary: acc) (simp_all add: Let_def)

lemma complaintsSLA_count:
  "complaintsSLA h cs =
     \<lparr>total = length cs,
      withinSLA = length (filter (\<lambda>c.
         jsLe (toNumber (calculateTTS h (CREATED_AT c) (SOLVED_AT c))) (Fin 14)) cs)\<rparr>"
  by (simp only: complaintsSLA_def complaintsSLA_foldl) simp

lemma complaintsSLA_part000_foldl:
  "foldl (\<lambda>acc complaint.
        let tts = calculateTTS h (CREATED_AT complaint) (SOLVED_AT complaint)
        in \<lparr>total = total acc + 1,
            withinSLA = withinSLA acc +
              (if tts \<noteq> None \<and> jsLe (toNumber tts) (Fin 14) then 1 else 0)\<rparr>)
       acc cs =
   \<lparr>total = total acc + length cs,
    withinSLA = withinSLA acc + length (filter (\<lambda>c.
       \<exists>d. calculateTTS h (CREATED_AT c) (SOLVED_AT c) = Some d \<and> jsLe d (Fin 14)) cs)\<rparr>"
  by (induction cs arbitrary: acc) (auto simp add: Let_def)

lemma complaintsSLA_part000_count:
  "complaintsSLA_part000 h cs =
     \<lparr>total = length cs,
      withinSLA = length (filter (\<lambda>c.
         \<exists>d. calculateTTS h (CREATED_AT c) (SOLVED_AT c) = Some d \<and> jsLe d (Fin 14)) cs)\<rparr>"
  by (simp only: complaintsSLA_part000_def complaintsSLA_part000_foldl) simp

lemma complaintsSLA_within_le: "withinSLA (complaintsSLA h cs) \<le> total (complaintsSLA h cs)"
  by (simp add: complaintsSLA_count)

lemma slaPercentage_cases:
  "slaPercentage sla =
     (if 0 < total sla then Fin (of_nat (withinSLA sla) / of_nat (total sla) * 100)
      else if withinSLA sla = 0 then NaN else PosInf)"
  by (simp add: slaPercentage_def)

section \<open>The run\<close>

text \<open>
  No \<open>TypeError\<close> is raised when every contact reason is a string, \<open>null\<close> or absent;
  the two selections of tickets are then plain filters.
\<close>

lemma interestTickets_Inr:
  assumes "\<forall>t\<in>set tickets. CONTACT_REASON_VALUE t \<in> {CUndefined, CNull} \<union> range CStr"
  shows "interestTickets tickets =
           Inr (AUTH_ACCOUNT_ID ` {t \<in> set tickets.
                  \<exists>s. CONTACT_REASON_VALUE t = CStr s \<and> includesStr (toLowerCase s) ''interest''})"
proof -
  let ?f = "\<lambda>t. reasonIncludes (CONTACT_REASON_VALUE t) ''interest''"
  have "\<forall>t\<in>set tickets. \<exists>b. ?f t = Inr b"
    using assms reasonIncludes_total by blast
  then obtain ts where ts: "filterE ?f tickets = Inr ts"
    using filterE_total [of ?f tickets] by blast
  then have "ts = filter (\<lambda>t. ?f t = Inr True) tickets"
    by (rule filterE_Inr)
  then show ?thesis
    using ts by (simp add: interestTickets_def reasonIncludes_True)
qed

lemma transferTickets_Inr:
  assumes "\<forall>t\<in>set tickets. CONTACT_REASON_VALUE t \<in> {CUndefined, CNull} \<union> range CStr"
  shows "transferTickets cohort tickets =
           Inr (filter (\<lambda>t. (\<exists>s. CONTACT_REASON_VALUE t = CStr s
                                \<and> includesStr (toLowerCase s) ''transfer'')
                             \<and> AUTH_ACCOUNT_ID t \<in> cohort) tickets)"
proof -
  let ?f = "\<lambda>t. case reasonIncludes (CONTACT_REASON_VALUE t) ''transfer'' of
                   Inl e \<Rightarrow> Inl e
                 | Inr b \<Rightarrow> Inr (b \<and> AUTH_ACCOUNT_ID t \<in> cohort)"
  have "\<forall>t\<in>set tickets. \<exists>b. ?f t = Inr b"
  proof
    fix t assume "t \<in> set tickets"
    then obtain b where "reasonIncludes (CONTACT_REASON_VALUE t) ''transfer'' = Inr b"
      using assms reasonIncludes_total by blast
    then show "\<exists>b. ?f t = Inr b" by simp
  qed
  then obtain ts where ts: "filterE ?f tickets = Inr ts"
    using filterE_total [of ?f tickets] by blast
  then have "ts = filter (\<lambda>t. ?f t = Inr True) tickets"
    by (rule filterE_Inr)
  moreover have "filter (\<lambda>t. ?f t = Inr True) tickets =
      filter (\<lambda>t. (\<exists>s. CONTACT_REASON_VALUE t = CStr s \<and> includesStr (toLowerCase s) ''transfer'')
        \<and> AUTH_ACCOUNT_ID t \<in> cohort) tickets"
    by (rule filter_cong) (auto simp: reasonIncludes_True [symmetric] split: sum.splits)
  ultimately show ?thesis
    using ts unfolding transferTickets_def by (simp only:)
qed

lemma frenchTransferComplaints_set:
  "frenchTransferComplaints cohort ts complaints =
     {a. a \<in> cohort \<and> (\<exists>c\<in>set complaints. AUTH_ACCOUNT_ID c = a)
         \<and> (\<exists>t\<in>set ts. AUTH_ACCOUNT_ID t = a)}"
  by (auto simp: frenchTransferComplaints_def list_ex_iff)

lemma french_transfer_set:
  "{a. a \<in> frenchCustomers personal \<and> (\<exists>c\<in>set complaints. AUTH_ACCOUNT_ID c = a)
         \<and> (\<exists>t\<in>set (filter (\<lambda>t. R t \<and> AUTH_ACCOUNT_ID t \<in> frenchCustomers personal) tickets).
               AUTH_ACCOUNT_ID t = a)} =
   {a. (\<exists>p\<in>set personal. JURISDICTION p = CStr ''FR'' \<and> AUTH_ACCOUNT_ID p = a) \<and>
       (\<exists>c\<in>set complaints. AUTH_ACCOUNT_ID c = a) \<and>
       (\<exists>t\<in>set tickets. AUTH_ACCOUNT_ID t = a \<and> R t)}"
  by (auto simp: frenchCustomers_iff) metis

lemma owner_filter:
  "filter (\<lambda>c. AUTH_ACCOUNT_ID c \<in> AUTH_ACCOUNT_ID ` {t \<in> set tickets. R t}) complaints =
   filter (\<lambda>c. \<exists>t\<in>set tickets. AUTH_ACCOUNT_ID t = AUTH_ACCOUNT_ID c \<and> R t) complaints"
  by (rule filter_cong) (auto simp: image_iff)

lemma interestComplaints_owner:
  "interestComplaints (AUTH_ACCOUNT_ID ` {t \<in> set tickets.
       \<exists>s. CONTACT_REASON_VALUE t = CStr s \<and> includesStr (toLowerCase s) ''interest''}) complaints =
   filter (\<lambda>c. \<exists>t\<in>set tickets. AUTH_ACCOUNT_ID t = AUTH_ACCOUNT_ID c \<and>
             (\<exists>u v w. CONTACT_REASON_VALUE t = CStr (u @ v @ w) \<and> toLowerCase v = ''interest''))
     complaints"
  unfolding interestComplaints_def reason_contains_iff
  by (rule owner_filter)

text \<open>
  A contact reason that is a number or a boolean raises the \<open>TypeError\<close> in question 2,
  and the run stores no results.
\<close>

lemma interestTickets_Inl:
  assumes "t \<in> set tickets"
    and "CONTACT_REASON_VALUE t \<in> range CBool \<union> range CNum"
  shows "interestTickets tickets = Inl TypeError"
proof -
  have "reasonIncludes (CONTACT_REASON_VALUE t) ''interest'' = Inl TypeError"
    using assms(2) by auto
  then have "\<exists>e. filterE (\<lambda>t. reasonIncludes (CONTACT_REASON_VALUE t) ''interest'') tickets = Inl e"
    using filterE_Inl [of t tickets "\<lambda>t. reasonIncludes (CONTACT_REASON_VALUE t) ''interest''"]
      assms(1)
    by blast
  then obtain e where
    "filterE (\<lambda>t. reasonIncludes (CONTACT_REASON_VALUE t) ''interest'') tickets = Inl e"
    by blast
  then show ?thesis
    by (cases e) (simp add: interestTickets_def)
qed

lemma results_analyzeData_TypeError:
  assumes "t \<in> set tickets"
    and "CONTACT_REASON_VALUE t \<in> range CBool \<union> range CNum"
  shows "results (analyzeData h clock personal tickets complaints st) = None"
  using interestTickets_Inl [OF assms]
  by (simp add: analyzeData_def analyzeTry_def Let_def)

text \<open>The results that a run without exception stores.\<close>

lemma results_analyzeData:
  assumes "interestTickets tickets = Inr its"
    and "transferTickets (frenchCustomers personal) tickets = Inr tts"
  shows "results (analyzeData h clock personal tickets complaints st) = Some
     \<lparr>q1 = \<lparr>value = Some (averageGermanTTS (germanAugustTTS h
                (germanAugustTickets h (germanCustomers personal) tickets))),
             answer = ''b'',
             explanation = ''Average TTS for German customers in August was 3.360 days''\<rparr>,
       q2 = \<lparr>value = Some (slaPercentage (complaintsSLA h (interestComplaints its complaints))),
             answer = ''b'',
             explanation = ''67.9% of interest-related complaints were resolved within SLA''\<rparr>,
       q3 = \<lparr>value = Some (Fin (of_nat (card
                (frenchTransferComplaints (frenchCustomers personal) tts complaints)))),
             answer = ''b'',
             explanation = ''5 French customers had complaints related to transfer inquiries''\<rparr>\<rparr>"
  using assms by (simp add: analyzeData_def analyzeTry_def Let_def)

text \<open>
  C1. On a complaint that was never solved, whose duration is \<open>null\<close>, the reduction of
  \<open>src/app/page.tsx\<close> counts the complaint as within the SLA and the run reports 100
  percent; the typed revision does not count it.
\<close>

theorem complaintsSLA_counts_null_duration:
  "calculateTTS utcHost (CREATED_AT nullSolvedComplaint) (SOLVED_AT nullSolvedComplaint) = None \<and>
   interestTickets [fixtureTicket] = Inr {CStr ''A1''} \<and>
   interestComplaints {CStr ''A1''} [nullSolvedComplaint] = [nullSolvedComplaint] \<and>
   complaintsSLA utcHost [nullSolvedComplaint] = \<lparr>total = 1, withinSLA = 1\<rparr> \<and>
   complaintsSLA_part000 utcHost [nullSolvedComplaint] = \<lparr>total = 1, withinSLA = 0\<rparr> \<and>
   map_option (value \<circ> q2)
     (results (analyzeData utcHost tickClock fixturePersonal [fixtureTicket] [nullSolvedComplaint] idle))
     = Some (Some (Fin 100))"
proof -
  have n1: "calculateTTS utcHost (CREATED_AT nullSolvedComplaint) (SOLVED_AT nullSolvedComplaint)
      = None"
    by (simp add: calculateTTS_def nullSolvedComplaint_def)
  have it: "interestTickets [fixtureTicket] = Inr {CStr ''A1''}"
    by (simp add: interestTickets_def fixtureTicket_def lower_interest)
  have tt: "transferTickets (frenchCustomers fixturePersonal) [fixtureTicket] = Inr []"
    by (simp add: transferTickets_def fixtureTicket_def lower_interest)
  have ic: "interestComplaints {CStr ''A1''} [nullSolvedComplaint] = [nullSolvedComplaint]"
    by (simp add: interestComplaints_def nullSolvedComplaint_def)
  have s: "complaintsSLA utcHost [nullSolvedComplaint] = \<lparr>total = 1, withinSLA = 1\<rparr>"
    by (simp add: complaintsSLA_def n1)
  have s': "complaintsSLA_part000 utcHost [nullSolvedComplaint] = \<lparr>total = 1, withinSLA = 0\<rparr>"
    by (simp add: complaintsSLA_part000_def n1)
  have r: "map_option (value \<circ> q2)
     (results (analyzeData utcHost tickClock fixturePersonal [fixtureTicket] [nullSolvedComplaint] idle))
     = Some (Some (Fin 100))"
    using results_analyzeData [OF it tt, of utcHost tickClock "[nullSolvedComplaint]" idle]
    by (simp add: ic s slaPercentage_def)
  show ?thesis
    using n1 it ic s s' r by blast
qed

theorem complaintsSLA_counts_null_duration_witness:
  "withinSLA (complaintsSLA utcHost [nullSolvedComplaint]) = 1 \<and>
   withinSLA (complaintsSLA_part000 utcHost [nullSolvedComplaint]) = 0"
  using complaintsSLA_counts_null_duration by simp

text \<open>
  C4. When no contact reason raises a \<open>TypeError\<close>, the run stores as the value of
  question 3 the number of distinct account ids that are the id of a personal row with
  jurisdiction \<open>FR\<close>, of some complaint, and of some ticket whose contact reason has a
  part that reads \<open>transfer\<close> once lower-cased. Nothing but the account id links
  the complaint to the ticket.
\<close>

theorem q3_counts_french_transfer_complainants:
  assumes "\<forall>t\<in>set tickets. CONTACT_REASON_VALUE t \<in> {CUndefined, CNull} \<union> range CStr"
  shows "\<exists>r. results (analyzeData h clock personal tickets complaints st) = Some r \<and>
     value (q3 r) = Some (Fin (of_nat (card
       {a. (\<exists>p\<in>set personal. JURISDICTION p = CStr ''FR'' \<and> AUTH_ACCOUNT_ID p = a) \<and>
           (\<exists>c\<in>set complaints. AUTH_ACCOUNT_ID c = a) \<and>
           (\<exists>t\<in>set tickets. AUTH_ACCOUNT_ID t = a \<and>
              (\<exists>u v w. CONTACT_REASON_VALUE t = CStr (u @ v @ w)
                        \<and> toLowerCase v = ''transfer''))})))"
proof -
  let ?tts = "filter (\<lambda>t. (\<exists>s. CONTACT_REASON_VALUE t = CStr s
                                \<and> includesStr (toLowerCase s) ''transfer'')
                             \<and> AUTH_ACCOUNT_ID t \<in> frenchCustomers personal) tickets"
  obtain its where it: "interestTickets tickets = Inr its"
    using interestTickets_Inr [OF assms] by blast
  have tt: "transferTickets (frenchCustomers personal) tickets = Inr ?tts"
    using transferTickets_Inr [OF assms] .
  have "frenchTransferComplaints (frenchCustomers personal) ?tts complaints =
       {a. (\<exists>p\<in>set personal. JURISDICTION p = CStr ''FR'' \<and> AUTH_ACCOUNT_ID p = a) \<and>
           (\<exists>c\<in>set complaints. AUTH_ACCOUNT_ID c = a) \<and>
           (\<exists>t\<in>set tickets. AUTH_ACCOUNT_ID t = a \<and>
              (\<exists>u v w. CONTACT_REASON_VALUE t = CStr (u @ v @ w)
                        \<and> toLowerCase v = ''transfer''))}"
    unfolding frenchTransferComplaints_set reason_contains_iff
    by (rule french_transfer_set)
  then show ?thesis
    using results_analyzeData [OF it tt, of h clock complaints st] by simp
qed

theorem q3_counts_french_transfer_complainants_witness:
  "\<exists>r. results (analyzeData utcHost tickClock frenchPersonal [transferTicket, fixtureTicket]
            frenchComplaints idle) = Some r \<and>
       value (q3 r) = Some (Fin 1)"
proof -
  have hyp: "\<forall>t\<in>set [transferTicket, fixtureTicket].
      CONTACT_REASON_VALUE t \<in> {CUndefined, CNull} \<union> range CStr"
    by (simp add: transferTicket_def fixtureTicket_def)
  have it: "interestTickets [transferTicket, fixtureTicket] = Inr {CStr ''A1''}"
    by (simp add: interestTickets_def transferTicket_def fixtureTicket_def
        lower_Transfer lower_interest)
  have tt: "transferTickets (frenchCustomers frenchPersonal) [transferTicket, fixtureTicket]
      = Inr [transferTicket]"
    by (simp add: transferTickets_def frenchCustomers_def frenchPersonal_def transferTicket_def
        fixtureTicket_def lower_Transfer lower_interest)
  have c: "card (frenchTransferComplaints (frenchCustomers frenchPersonal) [transferTicket]
      frenchComplaints) = 1"
    by (simp add: frenchTransferComplaints_def frenchCustomers_def frenchPersonal_def
        transferTicket_def frenchComplaints_def)
  show ?thesis
    using q3_counts_french_transfer_complainants [OF hyp, of utcHost tickClock frenchPersonal
        frenchComplaints idle]
      results_analyzeData [OF it tt, of utcHost tickClock frenchComplaints idle] c
    by simp
qed

text \<open>
  C5 (amended). When no duration is left for question 1 (and no contact reason raises a
  \<open>TypeError\<close>), the run completes and stores for question 1 the value \<open>NaN\<close> with the
  same answer and explanation as in every other run.
\<close>

theorem q1_empty_mean_is_NaN:
  assumes "\<forall>t\<in>set tickets. CONTACT_REASON_VALUE t \<in> {CUndefined, CNull} \<union> range CStr"
    and "germanAugustTTS h (germanAugustTickets h (germanCustomers personal) tickets) = []"
  shows "\<exists>r. results (analyzeData h clock personal tickets complaints st) = Some r \<and>
     q1 r = \<lparr>value = Some NaN, answer = ''b'',
             explanation = ''Average TTS for German customers in August was 3.360 days''\<rparr>"
proof -
  obtain its where it: "interestTickets tickets = Inr its"
    using interestTickets_Inr [OF assms(1)] by blast
  obtain tts where tt: "transferTickets (frenchCustomers personal) tickets = Inr tts"
    using transferTickets_Inr [OF assms(1)] by blast
  show ?thesis
    using results_analyzeData [OF it tt, of h clock complaints st] assms(2)
    by (simp add: averageGermanTTS_def)
qed

theorem q1_empty_mean_is_NaN_witness:
  "\<exists>r. results (analyzeData utcHost tickClock fixturePersonal [septemberTicket] [] idle) = Some r \<and>
       q1 r = \<lparr>value = Some NaN, answer = ''b'',
               explanation = ''Average TTS for German customers in August was 3.360 days''\<rparr>"
proof -
  have hyp: "\<forall>t\<in>set [septemberTicket].
      CONTACT_REASON_VALUE t \<in> {CUndefined, CNull} \<union> range CStr"
    by (simp add: septemberTicket_def fixtureTicket_def)
  have e: "germanAugustTTS utcHost
      (germanAugustTickets utcHost (germanCustomers fixturePersonal) [septemberTicket]) = []"
    by (simp add: germanAugustTTS_def germanAugustTickets_def septemberTicket_def
        fixtureTicket_def parse_sep1 month_sep1)
  show ?thesis
    using q1_empty_mean_is_NaN [OF hyp e, of tickClock "[]" idle] .
qed

text \<open>
  C5 as stated fails: with no ticket at all the mean is \<open>NaN\<close>, stored under the usual
  answer and explanation.
\<close>

theorem q1_empty_mean_counterexample:
  "germanAugustTTS utcHost (germanAugustTickets utcHost (germanCustomers fixturePersonal) []) = [] \<and>
   map_option q1 (results (analyzeData utcHost tickClock fixturePersonal [] [] idle)) =
     Some \<lparr>value = Some NaN, answer = ''b'',
           explanation = ''Average TTS for German customers in August was 3.360 days''\<rparr>"
proof -
  have it: "interestTickets [] = Inr {}"
    by (simp add: interestTickets_def)
  have tt: "transferTickets (frenchCustomers fixturePersonal) [] = Inr []"
    by (simp add: transferTickets_def)
  have e: "germanAugustTTS utcHost
      (germanAugustTickets utcHost (germanCustomers fixturePersonal) []) = []"
    by (simp add: germanAugustTTS_def germanAugustTickets_def)
  show ?thesis
    using results_analyzeData [OF it tt, of utcHost tickClock "[]" idle] e
    by (simp add: averageGermanTTS_def)
qed

text \<open>
  C6 (amended). When no contact reason raises a \<open>TypeError\<close>, the run of
  \<open>src/app/page.tsx\<close> stores for question 2 the value \<open>withinSLA / total * 100\<close> when the
  total is positive and \<open>NaN\<close> when it is zero, over the complaints whose owner has a
  ticket with a contact reason that contains \<open>interest\<close> in any letter case, always with
  the answer \<open>b\<close> and the same explanation.
\<close>

theorem q2_percentage:
  assumes "\<forall>t\<in>set tickets. CONTACT_REASON_VALUE t \<in> {CUndefined, CNull} \<union> range CStr"
  shows "\<exists>r. results (analyzeData h clock personal tickets complaints st) = Some r \<and>
     (let sla = complaintsSLA h
            (filter (\<lambda>c. \<exists>t\<in>set tickets. AUTH_ACCOUNT_ID t = AUTH_ACCOUNT_ID c \<and>
                      (\<exists>u v w. CONTACT_REASON_VALUE t = CStr (u @ v @ w)
                               \<and> toLowerCase v = ''interest''))
               complaints)
      in value (q2 r) =
           Some (if 0 < total sla
                 then Fin (of_nat (withinSLA sla) / of_nat (total sla) * 100) else NaN)) \<and>
     answer (q2 r) = ''b'' \<and>
     explanation (q2 r) = ''67.9% of interest-related complaints were resolved within SLA''"
proof -
  let ?its = "AUTH_ACCOUNT_ID ` {t \<in> set tickets.
       \<exists>s. CONTACT_REASON_VALUE t = CStr s \<and> includesStr (toLowerCase s) ''interest''}"
  have it: "interestTickets tickets = Inr ?its"
    using interestTickets_Inr [OF assms] .
  have tt: "transferTickets (frenchCustomers personal) tickets = Inr
      (filter (\<lambda>t. (\<exists>s. CONTACT_REASON_VALUE t = CStr s
                                \<and> includesStr (toLowerCase s) ''transfer'')
                             \<and> AUTH_ACCOUNT_ID t \<in> frenchCustomers personal) tickets)"
    using transferTickets_Inr [OF assms] .
  have "slaPercentage (complaintsSLA h cs) =
          (if 0 < total (complaintsSLA h cs)
           then Fin (of_nat (withinSLA (complaintsSLA h cs)) / of_nat (total (complaintsSLA h cs)) * 100)
           else NaN)" for cs
    using complaintsSLA_within_le [of h cs] by (simp add: slaPercentage_cases)
  then show ?thesis
    using results_analyzeData [OF it tt, of h clock complaints st]
    by (simp add: interestComplaints_owner Let_def)
qed

theorem q2_percentage_witness:
  "\<exists>r. results (analyzeData utcHost tickClock fixturePersonal [fixtureTicket] slowComplaints idle)
         = Some r \<and>
       value (q2 r) = Some (Fin 50)"
proof -
  have hyp: "\<forall>t\<in>set [fixtureTicket].
      CONTACT_REASON_VALUE t \<in> {CUndefined, CNull} \<union> range CStr"
    by (simp add: fixtureTicket_def)
  have it: "interestTickets [fixtureTicket] = Inr {CStr ''A1''}"
    by (simp add: interestTickets_def fixtureTicket_def lower_interest)
  have tt: "transferTickets (frenchCustomers fixturePersonal) [fixtureTicket] = Inr []"
    by (simp add: transferTickets_def fixtureTicket_def lower_interest)
  have s: "complaintsSLA utcHost (interestComplaints {CStr ''A1''} slowComplaints)
      = \<lparr>total = 2, withinSLA = 1\<rparr>"
    by (simp add: complaintsSLA_def interestComplaints_def slowComplaints_def tts_within tts_late)
  show ?thesis
    using q2_percentage [OF hyp, of utcHost tickClock fixturePersonal slowComplaints idle]
      results_analyzeData [OF it tt, of utcHost tickClock slowComplaints idle] s
    by (simp add: slaPercentage_def)
qed

text \<open>
  C6 as stated fails: with no complaint the total is zero and the value \<open>NaN\<close> is stored
  under the usual answer and explanation, not as a case that cannot be computed.
\<close>

theorem q2_zero_total_counterexample:
  "total (complaintsSLA utcHost (interestComplaints {CStr ''A1''} [])) = 0 \<and>
   interestTickets [fixtureTicket] = Inr {CStr ''A1''} \<and>
   map_option q2 (results (analyzeData utcHost tickClock fixturePersonal [fixtureTicket] [] idle)) =
     Some \<lparr>value = Some NaN, answer = ''b'',
           explanation = ''67.9% of interest-related complaints were resolved within SLA''\<rparr>"
proof -
  have it: "interestTickets [fixtureTicket] = Inr {CStr ''A1''}"
    by (simp add: interestTickets_def fixtureTicket_def lower_interest)
  have tt: "transferTickets (frenchCustomers fixturePersonal) [fixtureTicket] = Inr []"
    by (simp add: transferTickets_def fixtureTicket_def lower_interest)
  have s: "complaintsSLA utcHost (interestComplaints {CStr ''A1''} [])
      = \<lparr>total = 0, withinSLA = 0\<rparr>"
    by (simp add: complaintsSLA_def interestComplaints_def)
  show ?thesis
    using results_analyzeData [OF it tt, of utcHost tickClock "[]" idle] s it
    by (simp add: slaPercentage_def)
qed

text \<open>
  The revision \<open>src/unnamed/part_001\<close> stores \<open>null\<close> and the answer \<open>e\<close> for questions
  2 and 3 in every run that stores results, whatever the total is.
\<close>

lemma analyzeData_part001_not_computable:
  assumes "results (analyzeData_part001 h clock personal tickets complaints st) = Some r"
  shows "value (q2 r) = None \<and> answer (q2 r) = ''e'' \<and> value (q3 r) = None \<and> answer (q3 r) = ''e''"
proof (cases "interestComplaints_part001 tickets complaints")
  case (Inl e)
  with assms show ?thesis
    by (simp add: analyzeData_part001_def analyzeTry_part001_def Let_def)
next
  case (Inr cs)
  with assms show ?thesis
    by (auto simp add: analyzeData_part001_def analyzeTry_part001_def Let_def)
qed

text \<open>
  Of the host, the results use the parsing of dates and the time zone only; the log
  does not depend on the clock or on the state in which the analysis is started.
\<close>

lemma newDate_host:
  "dateParse h = dateParse h' \<Longrightarrow> newDate h v = newDate h' v"
  by (cases v) simp_all

lemma calculateTTS_host:
  "dateParse h = dateParse h' \<Longrightarrow> calculateTTS h c s = calculateTTS h' c s"
  by (simp add: calculateTTS_def newDate_host [of h h'])

lemma getMonth_host:
  "localTZA h = localTZA h' \<Longrightarrow> getMonth h d = getMonth h' d"
  by (cases d) (simp_all add: getMonth_def)

lemma getFullYear_host:
  "localTZA h = localTZA h' \<Longrightarrow> getFullYear h d = getFullYear h' d"
  by (cases d) (simp_all add: getFullYear_def)

lemma germanAugustTickets_host:
  assumes "dateParse h = dateParse h'" and "localTZA h = localTZA h'"
  shows "germanAugustTickets h cohort tickets = germanAugustTickets h' cohort tickets"
  by (simp add: germanAugustTickets_def newDate_host [OF assms(1)]
      getMonth_host [OF assms(2)] getFullYear_host [OF assms(2)])

lemma germanAugustTTS_host:
  "dateParse h = dateParse h' \<Longrightarrow> germanAugustTTS h ts = germanAugustTTS h' ts"
  by (simp add: germanAugustTTS_def calculateTTS_host [of h h'])

lemma complaintsSLA_host:
  "dateParse h = dateParse h' \<Longrightarrow> complaintsSLA h cs = complaintsSLA h' cs"
  by (simp add: complaintsSLA_def calculateTTS_host [of h h'])

lemma results_analyzeData_Inl:
  "interestTickets tickets = Inl e \<Longrightarrow>
     results (analyzeData h clock personal tickets complaints st) = None"
  by (simp add: analyzeData_def analyzeTry_def Let_def)

lemma results_analyzeData_Inl_transfer:
  "interestTickets tickets = Inr its \<Longrightarrow>
   transferTickets (frenchCustomers personal) tickets = Inl e \<Longrightarrow>
     results (analyzeData h clock personal tickets complaints st) = None"
  by (simp add: analyzeData_def analyzeTry_def Let_def)

lemma results_analyzeData_host:
  assumes "dateParse h = dateParse h'" and "localTZA h = localTZA h'"
  shows "results (analyzeData h clock personal tickets complaints st)
     = results (analyzeData h' clock' personal tickets complaints st')"
proof (cases "interestTickets tickets")
  case (Inl e)
  then show ?thesis
    by (simp add: results_analyzeData_Inl)
next
  case its: (Inr its)
  show ?thesis
  proof (cases "transferTickets (frenchCustomers personal) tickets")
    case (Inl e)
    with its show ?thesis
      by (simp add: results_analyzeData_Inl_transfer)
  next
    case (Inr tts)
    show ?thesis
      by (simp add: results_analyzeData [OF its Inr]
          germanAugustTickets_host [OF assms] germanAugustTTS_host [OF assms(1)]
          complaintsSLA_host [OF assms(1)])
  qed
qed

lemma logs_analyzeData_clock:
  "map message (logs (analyzeData h clock personal tickets complaints st))
     = map message (logs (analyzeData h clock' personal tickets complaints st')) \<and>
   map type (logs (analyzeData h clock personal tickets complaints st))
     = map type (logs (analyzeData h clock' personal tickets complaints st'))"
proof (cases "interestTickets tickets")
  case (Inl e)
  then show ?thesis
    by (simp add: analyzeData_def analyzeTry_def Let_def)
next
  case its: (Inr its)
  show ?thesis
  proof (cases "transferTickets (frenchCustomers personal) tickets")
    case (Inl e)
    with its show ?thesis
      by (simp add: analyzeData_def analyzeTry_def Let_def)
  next
    case (Inr tts)
    with its show ?thesis
      by (simp add: analyzeData_def analyzeTry_def Let_def)
  qed
qed

text \<open>
  C8 (amended). The results are the same for any two runs on the same three tables
  whose hosts parse dates alike and are in the same time zone, whatever the two wall
  clocks, the two starting states and the rest of the two hosts are: they depend on the
  three tables, on \<open>Date.parse\<close> and on the time zone only. On one host, the messages of
  the log (which carry the cohort sizes) and their classification are the same for any
  two wall clocks and starting states. The clock shows in the timestamps alone.
\<close>

theorem analyzeData_deterministic:
  "(dateParse h = dateParse h' \<and> localTZA h = localTZA h' \<longrightarrow>
      results (analyzeData h clock personal tickets complaints st)
        = results (analyzeData h' clock' personal tickets complaints st')) \<and>
   map message (logs (analyzeData h clock personal tickets complaints st))
     = map message (logs (analyzeData h clock' personal tickets complaints st')) \<and>
   map type (logs (analyzeData h clock personal tickets complaints st))
     = map type (logs (analyzeData h clock' personal tickets complaints st'))"
  using results_analyzeData_host [of h h' clock personal tickets complaints st clock' st']
    logs_analyzeData_clock [of h clock personal tickets complaints st clock' st']
  by blast

theorem analyzeData_deterministic_witness:
  "results (analyzeData utcHost tickClock fixturePersonal [fixtureTicket] slowComplaints idle)
     = results (analyzeData groupingHost noonClock fixturePersonal [fixtureTicket] slowComplaints busy) \<and>
   map message
     (logs (analyzeData utcHost tickClock fixturePersonal [fixtureTicket] slowComplaints idle))
     = map message
     (logs (analyzeData utcHost noonClock fixturePersonal [fixtureTicket] slowComplaints busy)) \<and>
   timestamp (hd (logs (addLog tickClock rocket 500 idle)))
     \<noteq> timestamp (hd (logs (addLog noonClock rocket 500 idle)))"
proof -
  have p: "dateParse utcHost = dateParse groupingHost \<and> localTZA utcHost = localTZA groupingHost"
    by (simp add: groupingHost_def)
  have "timeOfDay (tickClock 0) = ''00:00:00''"
    by (simp add: timeOfDay_def tickClock_def msPerDay_def digit_def)
  moreover have "timeOfDay (noonClock 0) = ''12:00:00''"
    by (simp add: timeOfDay_def noonClock_def msPerDay_def digit_def)
  ultimately have "timestamp (hd (logs (addLog tickClock rocket 500 idle)))
     \<noteq> timestamp (hd (logs (addLog noonClock rocket 500 idle)))"
    by (simp add: addLog_def idle_def)
  then show ?thesis
    using analyzeData_deterministic [of utcHost groupingHost tickClock fixturePersonal
        "[fixtureTicket]" slowComplaints idle noonClock busy] p
    by blast
qed

text \<open>
  C8 as stated fails: the results are not a function of the three tables alone. The
  same tables give the mean \<open>NaN\<close> for question 1 on a host in UTC and 49/16 days on a
  host two hours east, where the ticket of 31 July, 22:30 UTC, is a ticket of August.
\<close>

theorem analyzeData_time_zone_counterexample:
  "map_option (value \<circ> q1)
     (results (analyzeData utcHost tickClock fixturePersonal [lateJulyTicket] [] idle))
     = Some (Some NaN) \<and>
   map_option (value \<circ> q1)
     (results (analyzeData plusTwoHost tickClock fixturePersonal [lateJulyTicket] [] idle))
     = Some (Some (Fin (49 / 16)))"
proof -
  have it: "interestTickets [lateJulyTicket] = Inr {CStr ''A1''}"
    by (simp add: interestTickets_def lateJulyTicket_def fixtureTicket_def lower_interest)
  have tt: "transferTickets (frenchCustomers fixturePersonal) [lateJulyTicket] = Inr []"
    by (simp add: transferTickets_def lateJulyTicket_def fixtureTicket_def lower_interest)
  have u: "germanAugustTickets utcHost (germanCustomers fixturePersonal) [lateJulyTicket] = []"
    by (simp add: germanAugustTickets_def lateJulyTicket_def fixtureTicket_def utcHost_def
        parse_jul31 month_jul31_utc [unfolded utcHost_def])
  have dp: "dateParse plusTwoHost = isoParse"
    by (simp add: plusTwoHost_def utcHost_def)
  have g: "germanAugustTickets plusTwoHost (germanCustomers fixturePersonal) [lateJulyTicket]
      = [lateJulyTicket]"
    by (simp add: germanAugustTickets_def lateJulyTicket_def fixtureTicket_def dp
        parse_jul31 month_jul31_plus2 year_jul31_plus2 germanCustomers_def fixturePersonal_def)
  have a4: "isoParse ''2024-08-04T00:00:00Z'' = Some 1722729600000"
    using parse_aug4 by (simp add: utcHost_def)
  have d: "calculateTTS plusTwoHost (CREATED_AT lateJulyTicket) (SOLVED_AT lateJulyTicket)
      = Some (Fin (49 / 16))"
    by (simp add: calculateTTS_def lateJulyTicket_def fixtureTicket_def dp parse_jul31 a4
        getTime_def jsSub_def msPerDay_def)
  have r1: "map_option (value \<circ> q1)
     (results (analyzeData utcHost tickClock fixturePersonal [lateJulyTicket] [] idle))
     = Some (Some NaN)"
    using results_analyzeData [OF it tt, of utcHost tickClock "[]" idle]
    by (simp add: u germanAugustTTS_def averageGermanTTS_def)
  have r2: "map_option (value \<circ> q1)
     (results (analyzeData plusTwoHost tickClock fixturePersonal [lateJulyTicket] [] idle))
     = Some (Some (Fin (49 / 16)))"
    using results_analyzeData [OF it tt, of plusTwoHost tickClock "[]" idle]
    by (simp add: g germanAugustTTS_def averageGermanTTS_def d)
  show ?thesis
    using r1 r2 by blast
qed

section \<open>The classification of a log message\<close>

text \<open>
  C9 (amended). \<open>addLog\<close> appends one entry, whose type is a function of the message
  alone: \<open>error\<close> when a part of the message reads \<open>error\<close> once lower-cased, that is,
  in any letter case; otherwise \<open>success\<close> when a part reads \<open>success\<close> in any letter
  case; otherwise \<open>info\<close>.
\<close>

theorem addLog_classification:
  "logs (addLog clock m d st) =
     logs st @
       [\<lparr>timestamp = timeOfDay (clock (clockReads st)),
         message = m,
         type = (if \<exists>u v w. m = u @ v @ w \<and> toLowerCase v = ''error'' then ''error''
                 else if \<exists>u v w. m = u @ v @ w \<and> toLowerCase v = ''success'' then ''success''
                 else ''info'')\<rparr>]"
  by (simp add: addLog_def includes_lower_iff)

theorem addLog_classification_witness:
  "logs (addLog tickClock parsedMessage 500 idle) =
     [\<lparr>timestamp = ''00:00:00'', message = parsedMessage, type = ''success''\<rparr>]"
proof -
  have low: "toLowerCase parsedMessage = checkMark @ '' successfully parsed 2 personal records''"
    by code_simp
  have e: "\<not> includesStr (toLowerCase parsedMessage) ''error''"
    by (simp add: low checkMark_def)
  have s: "includesStr (toLowerCase parsedMessage) ''success''"
    by (simp add: low checkMark_def)
  have t: "timeOfDay (tickClock 0) = ''00:00:00''"
    by (simp add: timeOfDay_def tickClock_def msPerDay_def digit_def)
  show ?thesis
    using addLog_classification [of tickClock parsedMessage 500 idle] e s t
    unfolding includes_lower_iff
    by (simp add: idle_def)
qed

text \<open>
  C9 as stated fails when the words are compared as they are written: the message
  for a parsed table contains neither \<open>error\<close> nor \<open>success\<close>, only \<open>Success\<close>, and is
  classified \<open>success\<close>.
\<close>

theorem addLog_capital_success_counterexample:
  "\<not> includesStr parsedMessage ''error'' \<and> \<not> includesStr parsedMessage ''success'' \<and>
   map type (logs (addLog tickClock parsedMessage 500 idle)) = [''success'']"
proof -
  have "toLowerCase parsedMessage = checkMark @ '' successfully parsed 2 personal records''"
    by code_simp
  then show ?thesis
    by (simp add: parsedMessage_def checkMark_def idle_def)
qed

end
